theory Spec2Isabelle
  imports Main "HOL-Library.Multiset"
begin

section \<open>Exceptions\<close>

text \<open>
  The Python exceptions the modelled functions can raise. \<open>IndexError\<close> is an index out
  of range (\<^verbatim>\<open>batch[0]\<close>, \<^verbatim>\<open>shape[2]\<close>, \<^verbatim>\<open>output_names[3]\<close>), \<open>ValueError\<close> is numpy's
  "could not broadcast input array" of a slice assignment, \<open>AttributeError\<close> is
  \<^verbatim>\<open>None.shape\<close>, and \<open>PredictorError\<close> stands for whatever the inference engine raises
  inside \<^verbatim>\<open>predictor.run()\<close>.
\<close>

datatype error = IndexError | ValueError | AttributeError | PredictorError

section \<open>Dataset: vocabulary and label conversion\<close>

text \<open>
  \<^verbatim>\<open>self.vocabulary = dict([(labels[i], i) for i in range(len(labels))])\<close>:
  a dictionary built from pairs keeps the last pair of a repeated key, \<open>map_of\<close> the first.
\<close>

definition vocabulary_of :: "'c list \<Rightarrow> ('c \<rightharpoonup> nat)" where
  "vocabulary_of labels = map_of (rev (zip labels [0..<length labels]))"

text \<open>
  Python truth value of what \<^verbatim>\<open>dict.get\<close> returns: \<^verbatim>\<open>None\<close> and the integer \<open>0\<close> are
  false, every other integer is true. \<^verbatim>\<open>filter(None, xs)\<close> keeps the true elements.
\<close>

definition truthy :: "nat option \<Rightarrow> bool" where
  "truthy v = (case v of None \<Rightarrow> False | Some i \<Rightarrow> i \<noteq> 0)"

text \<open>
  \<^verbatim>\<open>transcript = list(filter(None, [self.vocabulary.get(x) for x in transcript]))\<close>
  of \<^verbatim>\<open>PPASRDataset.__getitem__\<close>, the same line in both dataset classes. The result
  becomes an int32 array; vocabulary indices are far below \<open>2^31\<close>, so it is an \<open>int list\<close>.
\<close>

definition getitem_transcript :: "('c \<rightharpoonup> nat) \<Rightarrow> 'c list \<Rightarrow> int list" where
  "getitem_transcript vocabulary transcript =
     map (\<lambda>v. int (the v)) (filter truthy (map vocabulary transcript))"

section \<open>Batch collation\<close>

text \<open>
  A feature is a 2-D numpy array: its shape and its rows. The element type is abstract
  (the code only copies elements), with a zero for \<^verbatim>\<open>np.zeros\<close>.
\<close>

record 'a ndarray2 =
  shape0 :: nat
  shape1 :: nat
  rows :: "'a list list"

type_synonym 'a sample = "'a ndarray2 \<times> int list"

text \<open>
  \<^verbatim>\<open>sorted(xs, key=k, reverse=True)\<close>: descending by key and stable (elements with equal
  keys stay in their original order), which is the stable ascending sort by the negated key.
\<close>

definition sorted_reverse :: "('b \<Rightarrow> nat) \<Rightarrow> 'b list \<Rightarrow> 'b list" where
  "sorted_reverse key xs = sort_key (\<lambda>x. - int (key x)) xs"

definition zeros2 :: "nat \<Rightarrow> nat \<Rightarrow> ('a::zero) ndarray2" where
  "zeros2 m n = \<lparr>shape0 = m, shape1 = n, rows = replicate m (replicate n 0)\<rparr>"

text \<open>
  numpy broadcasting of a slice assignment: a source axis of length \<open>n\<close> fits a target
  axis of length \<open>w\<close> when \<open>n = w\<close> or \<open>n = 1\<close>; an axis of length 1 is read at index 0.
\<close>

definition fits :: "nat \<Rightarrow> nat \<Rightarrow> bool" where
  "fits n w = (n = w \<or> n = 1)"

definition bcast :: "nat \<Rightarrow> nat \<Rightarrow> nat" where
  "bcast n i = (if n = 1 then 0 else i)"

text \<open>\<^verbatim>\<open>dst[:, :seq_length] = src[:, :]\<close> for 2-D arrays; the slice is clipped to the row width.\<close>

definition setitem2 :: "'a ndarray2 \<Rightarrow> nat \<Rightarrow> 'a ndarray2 \<Rightarrow> error + 'a ndarray2" where
  "setitem2 dst seq_length src =
     (let w = min seq_length (shape1 dst) in
      if fits (shape0 src) (shape0 dst) \<and> fits (shape1 src) w
      then Inr (dst\<lparr>rows :=
             map (\<lambda>r. map (\<lambda>c. rows src ! bcast (shape0 src) r ! bcast (shape1 src) c) [0..<w]
                        @ drop w (rows dst ! r))
                 [0..<shape0 dst]\<rparr>)
      else Inl ValueError)"

text \<open>\<^verbatim>\<open>dst[:label_length] = target[:]\<close> for 1-D arrays.\<close>

definition setitem1 :: "int list \<Rightarrow> nat \<Rightarrow> int list \<Rightarrow> error + int list" where
  "setitem1 dst label_length target =
     (let w = min label_length (length dst) in
      if fits (length target) w
      then Inr (map (\<lambda>c. target ! bcast (length target) c) [0..<w] @ drop w dst)
      else Inl ValueError)"

text \<open>The four values \<^verbatim>\<open>collate_fn\<close> builds and returns.\<close>

record 'a batch =
  inputs :: "'a ndarray2 list"
  labels :: "int list list"
  input_lens :: "nat list"
  label_lens :: "nat list"

text \<open>A \<^verbatim>\<open>for x in ...\<close> loop over a state; an exception in the body ends it.\<close>

fun for_each :: "nat list \<Rightarrow> (nat \<Rightarrow> 's \<Rightarrow> error + 's) \<Rightarrow> 's \<Rightarrow> error + 's" where
  "for_each [] body st = Inr st"
| "for_each (x # xs) body st =
     (case body x st of Inl e \<Rightarrow> Inl e | Inr st' \<Rightarrow> for_each xs body st')"

text \<open>The body of the loop of \<^verbatim>\<open>collate_fn\<close> at index \<open>x\<close>.\<close>

definition collate_body :: "'a sample list \<Rightarrow> nat \<Rightarrow> 'a batch \<Rightarrow> error + 'a batch" where
  "collate_body batch x st =
     (if length batch \<le> x then Inl IndexError
      else
        let sample = batch ! x;
            tensor = fst sample;
            target = snd sample;
            seq_length = shape1 tensor;
            label_length = length target
        in if length (inputs st) \<le> x then Inl IndexError
           else case setitem2 (inputs st ! x) seq_length tensor of
                  Inl e \<Rightarrow> Inl e
                | Inr row \<Rightarrow>
                   (if length (labels st) \<le> x then Inl IndexError
                    else case setitem1 (labels st ! x) label_length target of
                           Inl e \<Rightarrow> Inl e
                         | Inr lab \<Rightarrow>
                             Inr \<lparr>inputs = (inputs st)[x := row],
                                  labels = (labels st)[x := lab],
                                  input_lens = input_lens st @ [seq_length],
                                  label_lens = label_lens st @ [length target]\<rparr>))"

text \<open>
  \<^verbatim>\<open>collate_fn(batch)\<close> of \<^verbatim>\<open>data_utils/reader.py\<close> and \<^verbatim>\<open>utils/data.py\<close> (the two
  functions are the same text). \<open>batch0\<close> is the argument; the name \<^verbatim>\<open>batch\<close> is rebound
  to the sorted list on the first line.
\<close>

definition collate_fn :: "('a::zero) sample list \<Rightarrow> error + 'a batch" where
  "collate_fn batch0 =
     (let batch = sorted_reverse (\<lambda>sample. shape1 (fst sample)) batch0 in
      case batch of
        [] \<Rightarrow> Inl IndexError
      | first # _ \<Rightarrow>
          let freq_size = shape0 (fst first);
              max_audio_length = shape1 (fst first);
              batch_size = length batch;
              batch_temp = sorted_reverse (\<lambda>sample. length (snd sample)) batch
          in case batch_temp of
               [] \<Rightarrow> Inl IndexError
             | longest # _ \<Rightarrow>
                 let max_label_length = length (snd longest) in
                 for_each [0..<batch_size] (collate_body batch)
                   \<lparr>inputs = replicate batch_size (zeros2 freq_size max_audio_length),
                    labels = replicate batch_size (replicate max_label_length 0),
                    input_lens = [],
                    label_lens = []\<rparr>)"

section \<open>Inference session\<close>

text \<open>
  An n-dimensional numpy array: shape and elements in row-major order. The dtype
  conversions (\<^verbatim>\<open>astype\<close>) are not modelled: elements are abstract values.
\<close>

record 'a ndarray =
  shape :: "nat list"
  flat :: "'a list"

definition zeros :: "nat list \<Rightarrow> ('a::zero) ndarray" where
  "zeros s = \<lparr>shape = s, flat = replicate (prod_list s) 0\<rparr>"

text \<open>
  The input handles of the paddle predictor: what each holds after \<^verbatim>\<open>reshape\<close> and
  \<^verbatim>\<open>copy_from_cpu\<close>, \<open>None\<close> while nothing was copied into it.
\<close>

record 'a handles =
  speech_data_handle :: "'a ndarray option"
  speech_lengths_handle :: "'a ndarray option"
  init_state_h_box_handle :: "'a ndarray option"
  init_state_c_box_handle :: "'a ndarray option"

text \<open>
  The engine is outside the repository: \<^verbatim>\<open>predictor.run()\<close> reads the input handles and
  either raises or leaves one output per entry of \<^verbatim>\<open>output_names\<close>, in that order.
\<close>

type_synonym 'a engine = "'a handles \<Rightarrow> error + 'a ndarray list"

text \<open>
  The fields of \<^verbatim>\<open>InferencePredictor\<close> that \<^verbatim>\<open>predict\<close>, \<^verbatim>\<open>predict_chunk\<close> and
  \<^verbatim>\<open>reset_stream\<close> read or write; \<open>num_rnn_layers\<close> and \<open>rnn_size\<close> are
  \<^verbatim>\<open>configs.encoder_conf\<close>.
\<close>

record 'a predictor =
  use_model :: string
  num_rnn_layers :: nat
  rnn_size :: nat
  output_state_h :: "'a ndarray option"
  output_state_c :: "'a ndarray option"
  handles :: "'a handles"

text \<open>
  \<^verbatim>\<open>predict(self, speech, speech_lengths)\<close>. Reading \<^verbatim>\<open>speech.shape[2]\<close> needs three
  axes. The result is the value returned or the exception raised, with the object as the
  call leaves it.
\<close>

definition predict ::
  "'a engine \<Rightarrow> ('a::zero) predictor \<Rightarrow> 'a ndarray \<Rightarrow> 'a ndarray \<Rightarrow> (error + 'a ndarray) \<times> 'a predictor" where
  "predict run self speech speech_lengths =
     (if length (shape speech) < 3 then (Inl IndexError, self)
      else
        let self1 = self\<lparr>handles := (handles self)
                      \<lparr>speech_data_handle := Some speech,
                       speech_lengths_handle := Some speech_lengths\<rparr>\<rparr>;
            self2 =
              (if use_model self1 = ''deepspeech2_online''
               then let init_state_h_box =
                          zeros [num_rnn_layers self1, shape speech ! 0, rnn_size self1]
                    in self1\<lparr>handles := (handles self1)
                         \<lparr>init_state_h_box_handle := Some init_state_h_box,
                          init_state_c_box_handle := Some init_state_h_box\<rparr>\<rparr>
               else self1)
        in case run (handles self2) of
             Inl e \<Rightarrow> (Inl e, self2)
           | Inr outs \<Rightarrow>
               if length outs \<le> 0 then (Inl IndexError, self2)
               else (Inr (outs ! 0), self2))"

text \<open>
  \<^verbatim>\<open>predict_chunk(self, x_chunk, x_chunk_lens)\<close>, statement by statement: the speech
  handles, the zero initialisation when no state is held, the state handles, the run, and
  the four outputs read in order, each assignment to \<^verbatim>\<open>self\<close> taking effect before the
  next statement can raise.
\<close>

definition predict_chunk ::
  "'a engine \<Rightarrow> ('a::zero) predictor \<Rightarrow> 'a ndarray \<Rightarrow> 'a ndarray
     \<Rightarrow> (error + 'a ndarray \<times> 'a ndarray) \<times> 'a predictor" where
  "predict_chunk run self x_chunk x_chunk_lens =
     (if length (shape x_chunk) < 3 then (Inl IndexError, self)
      else
        let self1 = self\<lparr>handles := (handles self)
                      \<lparr>speech_data_handle := Some x_chunk,
                       speech_lengths_handle := Some x_chunk_lens\<rparr>\<rparr>;
            self2 =
              (if use_model self1 = ''deepspeech2_online'' \<and> output_state_h self1 = None
               then self1
                 \<lparr>output_state_h :=
                    Some (zeros [num_rnn_layers self1, shape x_chunk ! 0, rnn_size self1]),
                  output_state_c :=
                    Some (zeros [num_rnn_layers self1, shape x_chunk ! 0, rnn_size self1])\<rparr>
               else self1)
        in if use_model self2 = ''deepspeech2_online'' \<and> output_state_h self2 = None
           then (Inl AttributeError, self2)
           else
             let self3 =
               (if use_model self2 = ''deepspeech2_online''
                then self2\<lparr>handles := (handles self2)
                       \<lparr>init_state_h_box_handle := output_state_h self2\<rparr>\<rparr>
                else self2)
             in if use_model self3 = ''deepspeech2_online'' \<and> output_state_c self3 = None
                then (Inl AttributeError, self3)
                else
                  let self4 =
                    (if use_model self3 = ''deepspeech2_online''
                     then self3\<lparr>handles := (handles self3)
                            \<lparr>init_state_c_box_handle := output_state_c self3\<rparr>\<rparr>
                     else self3)
                  in case run (handles self4) of
                       Inl e \<Rightarrow> (Inl e, self4)
                     | Inr outs \<Rightarrow>
                         if length outs \<le> 2 then (Inl IndexError, self4)
                         else
                           let self5 = self4\<lparr>output_state_h := Some (outs ! 2)\<rparr> in
                           if length outs \<le> 3 then (Inl IndexError, self5)
                           else (Inr (outs ! 0, outs ! 1),
                                 self5\<lparr>output_state_c := Some (outs ! 3)\<rparr>))"

text \<open>\<^verbatim>\<open>reset_stream(self)\<close>.\<close>

definition reset_stream :: "'a predictor \<Rightarrow> 'a predictor" where
  "reset_stream self = self\<lparr>output_state_h := None, output_state_c := None\<rparr>"

text \<open>The two fields \<^verbatim>\<open>__init__\<close> sets to \<^verbatim>\<open>None\<close>; the handles hold nothing yet.\<close>

definition init_predictor :: "string \<Rightarrow> nat \<Rightarrow> nat \<Rightarrow> 'a predictor" where
  "init_predictor model layers hidden =
     \<lparr>use_model = model, num_rnn_layers = layers, rnn_size = hidden,
      output_state_h = None, output_state_c = None,
      handles = \<lparr>speech_data_handle = None, speech_lengths_handle = None,
                 init_state_h_box_handle = None, init_state_c_box_handle = None\<rparr>\<rparr>"

section \<open>Example data\<close>

text \<open>
  Small samples on which the functions are evaluated: a short and a long feature of two
  rows, a feature of a single row, and a feature of three rows.
\<close>

definition ex_short :: "int sample" where
  "ex_short = (\<lparr>shape0 = 2, shape1 = 1, rows = [[5], [6]]\<rparr>, [7])"
definition ex_long :: "int sample" where
  "ex_long = (\<lparr>shape0 = 2, shape1 = 3, rows = [[1, 2, 3], [4, 5, 6]]\<rparr>, [8, 9])"
definition ex_flat :: "int sample" where
  "ex_flat = (\<lparr>shape0 = 1, shape1 = 2, rows = [[7, 8]]\<rparr>, [])"
definition ex_wide :: "int sample" where
  "ex_wide = (\<lparr>shape0 = 3, shape1 = 2, rows = [[1, 1], [2, 2], [3, 3]]\<rparr>, [4])"
definition ex_out :: "int batch" where
  "ex_out = \<lparr>inputs = [\<lparr>shape0 = 2, shape1 = 3, rows = [[1, 2, 3], [4, 5, 6]]\<rparr>,
                       \<lparr>shape0 = 2, shape1 = 3, rows = [[5, 0, 0], [6, 0, 0]]\<rparr>],
             labels = [[8, 9], [7, 0]], input_lens = [3, 1], label_lens = [2, 1]\<rparr>"

text \<open>
  A chunk of batch size 1 and one of batch size 2 with their lengths, an engine that
  accepts any input and returns the chunk, the lengths and the two states it was given,
  changed, an engine that always raises, a fresh streaming session, and that session
  after one chunk.
\<close>

definition ex_chunk :: "int ndarray" where
  "ex_chunk = \<lparr>shape = [1, 2, 2], flat = [1, 2, 3, 4]\<rparr>"
definition ex_lens :: "int ndarray" where
  "ex_lens = \<lparr>shape = [1], flat = [2]\<rparr>"
definition ex_chunk2 :: "int ndarray" where
  "ex_chunk2 = \<lparr>shape = [2, 1, 1], flat = [5, 6]\<rparr>"
definition ex_lens2 :: "int ndarray" where
  "ex_lens2 = \<lparr>shape = [2], flat = [1, 1]\<rparr>"
definition ex_engine :: "int engine" where
  "ex_engine h =
     (case (speech_data_handle h, speech_lengths_handle h,
            init_state_h_box_handle h, init_state_c_box_handle h) of
        (Some x, Some l, Some a, Some b) \<Rightarrow>
          Inr [x, l, a\<lparr>flat := map (\<lambda>v. v + 1) (flat a)\<rparr>, b\<lparr>flat := map (\<lambda>v. v + 2) (flat b)\<rparr>]
      | _ \<Rightarrow> Inl PredictorError)"
definition ex_failing_engine :: "int engine" where
  "ex_failing_engine h = Inl PredictorError"
definition ex_session :: "int predictor" where
  "ex_session = init_predictor ''deepspeech2_online'' 1 2"
definition ex_active :: "int predictor" where
  "ex_active = snd (predict_chunk ex_engine ex_session ex_chunk ex_lens)"

section \<open>Label conversion\<close>

text \<open>
  What the conversion keeps: the indices of the characters that are in the vocabulary
  with an index other than 0, in the order of the transcript.
\<close>

lemma getitem_transcript_Nil: "getitem_transcript vocabulary [] = []"
  by (simp add: getitem_transcript_def)

lemma getitem_transcript_Cons:
  "getitem_transcript vocabulary (x # xs) =
     (case vocabulary x of
        None \<Rightarrow> getitem_transcript vocabulary xs
      | Some i \<Rightarrow> if i = 0 then getitem_transcript vocabulary xs
                  else int i # getitem_transcript vocabulary xs)"
  by (simp add: getitem_transcript_def truthy_def split: option.splits)

text \<open>
  C2. The label conversion of \<^verbatim>\<open>__getitem__\<close> at the two transcripts of the claim, under
  the vocabulary \<open>{h:0, e:1, l:2, o:3}\<close> (the label list \<open>helo\<close>): \<^verbatim>\<open>filter(None, ...)\<close>
  drops the index 0 of \<open>h\<close> together with the \<^verbatim>\<open>None\<close> of an absent character, so
  \<open>hello\<close> gives \<open>[1,2,2,3]\<close> and \<open>hi\<close> gives the empty list.
\<close>

theorem getitem_transcript_drops_index_zero:
  "vocabulary_of ''helo'' CHR ''h'' = Some 0 \<and>
   vocabulary_of ''helo'' CHR ''i'' = None \<and>
   getitem_transcript (vocabulary_of ''helo'') ''hello'' = [1, 2, 2, 3] \<and>
   getitem_transcript (vocabulary_of ''helo'') ''hi'' = []"
  by (simp add: getitem_transcript_def vocabulary_of_def truthy_def upt_rec)

section \<open>Streaming session\<close>

text \<open>
  C8. \<^verbatim>\<open>reset_stream\<close> is idempotent and unconditional: a second call changes nothing,
  and after a call from any session, holding state or not, both state fields are \<^verbatim>\<open>None\<close>.
\<close>

theorem reset_stream_idempotent:
  "reset_stream (reset_stream self) = reset_stream self \<and>
   output_state_h (reset_stream self) = None \<and>
   output_state_c (reset_stream self) = None"
  by (simp add: reset_stream_def)

text \<open>
  C9. \<^verbatim>\<open>predict\<close> leaves the streaming state fields as they were, whatever the session
  holds, whatever the engine does and whether the call returns or raises.
\<close>

theorem predict_keeps_stream_state:
  "output_state_h (snd (predict run self speech speech_lengths)) = output_state_h self \<and>
   output_state_c (snd (predict run self speech speech_lengths)) = output_state_c self"
  by (simp add: predict_def Let_def split: sum.splits)

lemma fresh_session_idle:
  "output_state_h (init_predictor m n k) = None \<and> output_state_c (init_predictor m n k) = None"
  by (simp add: init_predictor_def)

text \<open>
  What a call does once the chunk has three axes and the state fields are both held or
  both absent: the handles it leaves are the inputs of the run, and the outcome follows the
  engine's.
\<close>

lemma predict_chunk_run:
  fixes self :: "('a::zero) predictor"
  assumes rank: "3 \<le> length (shape x_chunk)"
    and ok: "use_model self = ''deepspeech2_online'' \<and> output_state_h self \<noteq> None
               \<longrightarrow> output_state_c self \<noteq> None"
    and fed: "fed =
           (if use_model self = ''deepspeech2_online''
            then \<lparr>speech_data_handle = Some x_chunk, speech_lengths_handle = Some x_chunk_lens,
                  init_state_h_box_handle =
                    (if output_state_h self = None
                     then Some (zeros [num_rnn_layers self, shape x_chunk ! 0, rnn_size self])
                     else output_state_h self),
                  init_state_c_box_handle =
                    (if output_state_h self = None
                     then Some (zeros [num_rnn_layers self, shape x_chunk ! 0, rnn_size self])
                     else output_state_c self)\<rparr>
            else (handles self)\<lparr>speech_data_handle := Some x_chunk,
                                 speech_lengths_handle := Some x_chunk_lens\<rparr>)"
  shows "handles (snd (predict_chunk run self x_chunk x_chunk_lens)) = fed"
    and "run fed = Inl e \<Longrightarrow> fst (predict_chunk run self x_chunk x_chunk_lens) = Inl e"
    and "run fed = Inr outs \<Longrightarrow> length outs \<le> 3 \<Longrightarrow>
           fst (predict_chunk run self x_chunk x_chunk_lens) = Inl IndexError"
    and "run fed = Inr outs \<Longrightarrow> 4 \<le> length outs \<Longrightarrow>
           fst (predict_chunk run self x_chunk x_chunk_lens) = Inr (outs ! 0, outs ! 1) \<and>
           output_state_h (snd (predict_chunk run self x_chunk x_chunk_lens)) = Some (outs ! 2) \<and>
           output_state_c (snd (predict_chunk run self x_chunk x_chunk_lens)) = Some (outs ! 3)"
proof -
  let ?z = "zeros [num_rnn_layers self, shape x_chunk ! 0, rnn_size self] :: 'a ndarray"
  let ?sp = "(handles self)\<lparr>speech_data_handle := Some x_chunk,
                speech_lengths_handle := Some x_chunk_lens\<rparr>"
  have lit: "?sp\<lparr>init_state_h_box_handle := a, init_state_c_box_handle := b\<rparr> =
        \<lparr>speech_data_handle = Some x_chunk, speech_lengths_handle = Some x_chunk_lens,
         init_state_h_box_handle = a, init_state_c_box_handle = b\<rparr>" for a b
    by (cases "handles self") simp
  consider
      (offline) "use_model self \<noteq> ''deepspeech2_online''"
    | (idle) "use_model self = ''deepspeech2_online''" "output_state_h self = None"
    | (active) h c where "use_model self = ''deepspeech2_online''"
        "output_state_h self = Some h" "output_state_c self = Some c"
    using ok by (cases "output_state_h self"; cases "output_state_c self") auto
  then have "handles (snd (predict_chunk run self x_chunk x_chunk_lens)) = fed \<and>
     (run fed = Inl e \<longrightarrow> fst (predict_chunk run self x_chunk x_chunk_lens) = Inl e) \<and>
     (run fed = Inr outs \<and> length outs \<le> 3 \<longrightarrow>
           fst (predict_chunk run self x_chunk x_chunk_lens) = Inl IndexError) \<and>
     (run fed = Inr outs \<and> 4 \<le> length outs \<longrightarrow>
           fst (predict_chunk run self x_chunk x_chunk_lens) = Inr (outs ! 0, outs ! 1) \<and>
           output_state_h (snd (predict_chunk run self x_chunk x_chunk_lens)) = Some (outs ! 2) \<and>
           output_state_c (snd (predict_chunk run self x_chunk x_chunk_lens)) = Some (outs ! 3))"
  proof cases
    case offline
    have f: "fed = ?sp" using offline fed by simp
    show ?thesis unfolding f
      using rank offline by (simp add: predict_chunk_def Let_def split: sum.splits)
  next
    case idle
    have f: "fed = ?sp\<lparr>init_state_h_box_handle := Some ?z, init_state_c_box_handle := Some ?z\<rparr>"
      using idle fed by (simp add: lit)
    show ?thesis unfolding f
      using rank idle by (simp add: predict_chunk_def Let_def split: sum.splits)
  next
    case active
    have f: "fed = ?sp\<lparr>init_state_h_box_handle := Some h, init_state_c_box_handle := Some c\<rparr>"
      using active fed by (simp add: lit)
    show ?thesis unfolding f
      using rank active by (simp add: predict_chunk_def Let_def split: sum.splits)
  qed
  then show "handles (snd (predict_chunk run self x_chunk x_chunk_lens)) = fed"
    and "run fed = Inl e \<Longrightarrow> fst (predict_chunk run self x_chunk x_chunk_lens) = Inl e"
    and "run fed = Inr outs \<Longrightarrow> length outs \<le> 3 \<Longrightarrow>
           fst (predict_chunk run self x_chunk x_chunk_lens) = Inl IndexError"
    and "run fed = Inr outs \<Longrightarrow> 4 \<le> length outs \<Longrightarrow>
           fst (predict_chunk run self x_chunk x_chunk_lens) = Inr (outs ! 0, outs ! 1) \<and>
           output_state_h (snd (predict_chunk run self x_chunk x_chunk_lens)) = Some (outs ! 2) \<and>
           output_state_c (snd (predict_chunk run self x_chunk x_chunk_lens)) = Some (outs ! 3)"
    by blast+
qed

text \<open>
  C3. On a call of a streaming model with no state held (as \<^verbatim>\<open>__init__\<close> and
  \<^verbatim>\<open>reset_stream\<close> leave the session), \<^verbatim>\<open>predict_chunk\<close> puts zeros of shape
  \<open>(num_rnn_layers, chunk.shape[0], rnn_size)\<close> into both state handles, beside the chunk
  and its lengths, and the outcome of the call is that of the engine run on these handles.
  After every call that returns, the engine returned at least four outputs on the handles the
  call left, the result is outputs 0 and 1, and the held state is outputs 2 and 3.
  Conversely, on every call (first or later, streaming or not) the engine is run on the
  chunk, its lengths and, for a streaming model, the zero state or the held state; and
  whenever the engine returns at least four outputs the call returns outputs 0 and 1 and the
  session holds outputs 2 and 3.
\<close>

theorem predict_chunk_state_threading:
  fixes self :: "('a::zero) predictor"
  shows "(use_model self = ''deepspeech2_online'' \<and> output_state_h self = None \<and>
          3 \<le> length (shape x_chunk) \<longrightarrow>
            handles (snd (predict_chunk run self x_chunk x_chunk_lens)) =
              \<lparr>speech_data_handle = Some x_chunk, speech_lengths_handle = Some x_chunk_lens,
               init_state_h_box_handle =
                 Some (zeros [num_rnn_layers self, shape x_chunk ! 0, rnn_size self]),
               init_state_c_box_handle =
                 Some (zeros [num_rnn_layers self, shape x_chunk ! 0, rnn_size self])\<rparr> \<and>
            fst (predict_chunk run self x_chunk x_chunk_lens) =
              (case run (handles (snd (predict_chunk run self x_chunk x_chunk_lens))) of
                 Inl e \<Rightarrow> Inl e
               | Inr outs \<Rightarrow> if length outs \<le> 3 then Inl IndexError
                              else Inr (outs ! 0, outs ! 1))) \<and>
         (\<forall>res self'. predict_chunk run self x_chunk x_chunk_lens = (Inr res, self') \<longrightarrow>
            (\<exists>outs. run (handles self') = Inr outs \<and> 4 \<le> length outs \<and>
                    res = (outs ! 0, outs ! 1) \<and>
                    output_state_h self' = Some (outs ! 2) \<and>
                    output_state_c self' = Some (outs ! 3))) \<and>
         (3 \<le> length (shape x_chunk) \<and>
          (use_model self = ''deepspeech2_online'' \<and> output_state_h self \<noteq> None
             \<longrightarrow> output_state_c self \<noteq> None) \<longrightarrow>
            handles (snd (predict_chunk run self x_chunk x_chunk_lens)) =
              (if use_model self = ''deepspeech2_online''
               then \<lparr>speech_data_handle = Some x_chunk, speech_lengths_handle = Some x_chunk_lens,
                     init_state_h_box_handle =
                       (if output_state_h self = None
                        then Some (zeros [num_rnn_layers self, shape x_chunk ! 0, rnn_size self])
                        else output_state_h self),
                     init_state_c_box_handle =
                       (if output_state_h self = None
                        then Some (zeros [num_rnn_layers self, shape x_chunk ! 0, rnn_size self])
                        else output_state_c self)\<rparr>
               else (handles self)\<lparr>speech_data_handle := Some x_chunk,
                                    speech_lengths_handle := Some x_chunk_lens\<rparr>) \<and>
            fst (predict_chunk run self x_chunk x_chunk_lens) =
              (case run (handles (snd (predict_chunk run self x_chunk x_chunk_lens))) of
                 Inl e \<Rightarrow> Inl e
               | Inr outs \<Rightarrow> if length outs \<le> 3 then Inl IndexError
                              else Inr (outs ! 0, outs ! 1)) \<and>
            (\<forall>outs. run (handles (snd (predict_chunk run self x_chunk x_chunk_lens))) = Inr outs \<and>
                    4 \<le> length outs \<longrightarrow>
               predict_chunk run self x_chunk x_chunk_lens =
                 (Inr (outs ! 0, outs ! 1), snd (predict_chunk run self x_chunk x_chunk_lens)) \<and>
               output_state_h (snd (predict_chunk run self x_chunk x_chunk_lens))
                 = Some (outs ! 2) \<and>
               output_state_c (snd (predict_chunk run self x_chunk x_chunk_lens))
                 = Some (outs ! 3)))"
proof -
  let ?P = "predict_chunk run self x_chunk x_chunk_lens"
  let ?z = "zeros [num_rnn_layers self, shape x_chunk ! 0, rnn_size self] :: 'a ndarray"
  let ?case = "\<lambda>r. (case r of Inl e \<Rightarrow> Inl e
                     | Inr outs \<Rightarrow> if length outs \<le> 3 then Inl IndexError
                                    else Inr (outs ! 0, outs ! 1))
                    :: error + 'a ndarray \<times> 'a ndarray"
  let ?FED = "(if use_model self = ''deepspeech2_online''
               then \<lparr>speech_data_handle = Some x_chunk, speech_lengths_handle = Some x_chunk_lens,
                     init_state_h_box_handle =
                       (if output_state_h self = None then Some ?z else output_state_h self),
                     init_state_c_box_handle =
                       (if output_state_h self = None then Some ?z else output_state_c self)\<rparr>
               else (handles self)\<lparr>speech_data_handle := Some x_chunk,
                                    speech_lengths_handle := Some x_chunk_lens\<rparr>)"
  have general:
    "handles (snd ?P) = ?FED \<and> fst ?P = ?case (run (handles (snd ?P))) \<and>
     (\<forall>outs. run (handles (snd ?P)) = Inr outs \<and> 4 \<le> length outs \<longrightarrow>
        ?P = (Inr (outs ! 0, outs ! 1), snd ?P) \<and>
        output_state_h (snd ?P) = Some (outs ! 2) \<and>
        output_state_c (snd ?P) = Some (outs ! 3))"
    if rank: "3 \<le> length (shape x_chunk)"
      and ok: "use_model self = ''deepspeech2_online'' \<and> output_state_h self \<noteq> None
                 \<longrightarrow> output_state_c self \<noteq> None"
  proof -
    note pr = predict_chunk_run [OF rank ok refl, where run = run and x_chunk_lens = x_chunk_lens]
    have H: "handles (snd ?P) = ?FED" by (rule pr(1))
    have F: "fst ?P = ?case (run ?FED)"
    proof (cases "run ?FED")
      case (Inl e)
      show ?thesis using pr(2) [OF Inl] Inl by simp
    next
      case (Inr outs)
      show ?thesis
      proof (cases "length outs \<le> 3")
        case True
        show ?thesis using pr(3) [OF Inr True] Inr True by simp
      next
        case False
        then have "4 \<le> length outs" by simp
        from pr(4) [OF Inr this] show ?thesis using Inr False by simp
      qed
    qed
    have A: "\<forall>outs. run ?FED = Inr outs \<and> 4 \<le> length outs \<longrightarrow>
        ?P = (Inr (outs ! 0, outs ! 1), snd ?P) \<and>
        output_state_h (snd ?P) = Some (outs ! 2) \<and>
        output_state_c (snd ?P) = Some (outs ! 3)"
    proof (intro allI impI)
      fix outs assume a: "run ?FED = Inr outs \<and> 4 \<le> length outs"
      then have r: "run ?FED = Inr outs" and n: "4 \<le> length outs" by simp_all
      note q = pr(4) [OF r n]
      have "?P = (fst ?P, snd ?P)" by simp
      then have "?P = (Inr (outs ! 0, outs ! 1), snd ?P)" using q by simp
      then show "?P = (Inr (outs ! 0, outs ! 1), snd ?P) \<and>
        output_state_h (snd ?P) = Some (outs ! 2) \<and>
        output_state_c (snd ?P) = Some (outs ! 3)"
        using q by blast
    qed
    show ?thesis unfolding H using F A by (simp only: H [symmetric] simp_thms)
  qed
  have first: "handles (snd ?P) =
              \<lparr>speech_data_handle = Some x_chunk, speech_lengths_handle = Some x_chunk_lens,
               init_state_h_box_handle = Some ?z, init_state_c_box_handle = Some ?z\<rparr> \<and>
            fst ?P = ?case (run (handles (snd ?P)))"
    if a: "use_model self = ''deepspeech2_online'' \<and> output_state_h self = None \<and>
          3 \<le> length (shape x_chunk)"
  proof -
    have "3 \<le> length (shape x_chunk)" using a by simp
    moreover have "use_model self = ''deepspeech2_online'' \<and> output_state_h self \<noteq> None
                 \<longrightarrow> output_state_c self \<noteq> None" using a by simp
    ultimately have g: "handles (snd ?P) = ?FED \<and> fst ?P = ?case (run (handles (snd ?P)))"
      using general by blast
    have "?FED = \<lparr>speech_data_handle = Some x_chunk, speech_lengths_handle = Some x_chunk_lens,
               init_state_h_box_handle = Some ?z, init_state_c_box_handle = Some ?z\<rparr>"
      using a by simp
    then show ?thesis using g by simp
  qed
  have returned: "\<forall>res self'. ?P = (Inr res, self') \<longrightarrow>
            (\<exists>outs. run (handles self') = Inr outs \<and> 4 \<le> length outs \<and>
                    res = (outs ! 0, outs ! 1) \<and>
                    output_state_h self' = Some (outs ! 2) \<and>
                    output_state_c self' = Some (outs ! 3))"
    by (auto simp add: predict_chunk_def Let_def split: if_splits sum.splits)
  show ?thesis using first returned general by (intro conjI impI) blast+
qed

theorem predict_chunk_state_threading_witness:
  "use_model ex_session = ''deepspeech2_online'' \<and> output_state_h ex_session = None \<and>
   3 \<le> length (shape ex_chunk) \<and>
   handles (snd (predict_chunk ex_engine ex_session ex_chunk ex_lens)) =
     \<lparr>speech_data_handle = Some ex_chunk, speech_lengths_handle = Some ex_lens,
      init_state_h_box_handle =
        Some (zeros [num_rnn_layers ex_session, shape ex_chunk ! 0, rnn_size ex_session]),
      init_state_c_box_handle =
        Some (zeros [num_rnn_layers ex_session, shape ex_chunk ! 0, rnn_size ex_session])\<rparr> \<and>
   zeros [num_rnn_layers ex_session, shape ex_chunk ! 0, rnn_size ex_session]
     = \<lparr>shape = [1, 1, 2], flat = [0, 0 :: int]\<rparr> \<and>
   predict_chunk ex_engine ex_session ex_chunk ex_lens = (Inr (ex_chunk, ex_lens), ex_active) \<and>
   (\<exists>outs. ex_engine (handles ex_active) = Inr outs \<and> 4 \<le> length outs \<and>
           (ex_chunk, ex_lens) = (outs ! 0, outs ! 1) \<and>
           output_state_h ex_active = Some (outs ! 2) \<and>
           output_state_c ex_active = Some (outs ! 3)) \<and>
   3 \<le> length (shape ex_chunk2) \<and>
   use_model ex_active = ''deepspeech2_online'' \<and>
   output_state_h ex_active = Some \<lparr>shape = [1, 1, 2], flat = [1, 1]\<rparr> \<and>
   output_state_c ex_active = Some \<lparr>shape = [1, 1, 2], flat = [2, 2]\<rparr> \<and>
   handles (snd (predict_chunk ex_engine ex_active ex_chunk2 ex_lens2)) =
     \<lparr>speech_data_handle = Some ex_chunk2, speech_lengths_handle = Some ex_lens2,
      init_state_h_box_handle = Some \<lparr>shape = [1, 1, 2], flat = [1, 1]\<rparr>,
      init_state_c_box_handle = Some \<lparr>shape = [1, 1, 2], flat = [2, 2]\<rparr>\<rparr> \<and>
   ex_engine (handles (snd (predict_chunk ex_engine ex_active ex_chunk2 ex_lens2))) =
     Inr [ex_chunk2, ex_lens2, \<lparr>shape = [1, 1, 2], flat = [2, 2]\<rparr>,
          \<lparr>shape = [1, 1, 2], flat = [4, 4]\<rparr>] \<and>
   fst (predict_chunk ex_engine ex_active ex_chunk2 ex_lens2) = Inr (ex_chunk2, ex_lens2) \<and>
   output_state_h (snd (predict_chunk ex_engine ex_active ex_chunk2 ex_lens2))
     = Some \<lparr>shape = [1, 1, 2], flat = [2, 2]\<rparr> \<and>
   output_state_c (snd (predict_chunk ex_engine ex_active ex_chunk2 ex_lens2))
     = Some \<lparr>shape = [1, 1, 2], flat = [4, 4]\<rparr>"
proof -
  have a: "use_model ex_session = ''deepspeech2_online'' \<and> output_state_h ex_session = None \<and>
           3 \<le> length (shape ex_chunk)"
    by code_simp
  have z: "zeros [num_rnn_layers ex_session, shape ex_chunk ! 0, rnn_size ex_session]
             = \<lparr>shape = [1, 1, 2], flat = [0, 0 :: int]\<rparr>"
    by code_simp
  have p: "predict_chunk ex_engine ex_session ex_chunk ex_lens = (Inr (ex_chunk, ex_lens), ex_active)"
    by code_simp
  note t = predict_chunk_state_threading
             [where self = ex_session and x_chunk = ex_chunk and run = ex_engine
                and x_chunk_lens = ex_lens]
  have h: "handles (snd (predict_chunk ex_engine ex_session ex_chunk ex_lens)) =
     \<lparr>speech_data_handle = Some ex_chunk, speech_lengths_handle = Some ex_lens,
      init_state_h_box_handle =
        Some (zeros [num_rnn_layers ex_session, shape ex_chunk ! 0, rnn_size ex_session]),
      init_state_c_box_handle =
        Some (zeros [num_rnn_layers ex_session, shape ex_chunk ! 0, rnn_size ex_session])\<rparr>"
    using t a by blast
  have e: "\<exists>outs. ex_engine (handles ex_active) = Inr outs \<and> 4 \<le> length outs \<and>
           (ex_chunk, ex_lens) = (outs ! 0, outs ! 1) \<and>
           output_state_h ex_active = Some (outs ! 2) \<and>
           output_state_c ex_active = Some (outs ! 3)"
    using t p by blast
  let ?P2 = "predict_chunk ex_engine ex_active ex_chunk2 ex_lens2"
  have r2: "3 \<le> length (shape ex_chunk2)"
    by code_simp
  have m2: "use_model ex_active = ''deepspeech2_online''"
    by code_simp
  have h2: "output_state_h ex_active = Some \<lparr>shape = [1, 1, 2], flat = [1, 1]\<rparr>"
    by code_simp
  have c2: "output_state_c ex_active = Some \<lparr>shape = [1, 1, 2], flat = [2, 2]\<rparr>"
    by code_simp
  have ok2: "use_model ex_active = ''deepspeech2_online'' \<and> output_state_h ex_active \<noteq> None
               \<longrightarrow> output_state_c ex_active \<noteq> None"
    using c2 by simp
  have o2: "ex_engine (handles (snd ?P2)) =
              Inr [ex_chunk2, ex_lens2, \<lparr>shape = [1, 1, 2], flat = [2, 2]\<rparr>,
                   \<lparr>shape = [1, 1, 2], flat = [4, 4]\<rparr>]"
    by code_simp
  note t2 = predict_chunk_state_threading
             [where self = ex_active and x_chunk = ex_chunk2 and run = ex_engine
                and x_chunk_lens = ex_lens2]
  have g2: "handles (snd ?P2) =
              (if use_model ex_active = ''deepspeech2_online''
               then \<lparr>speech_data_handle = Some ex_chunk2, speech_lengths_handle = Some ex_lens2,
                     init_state_h_box_handle =
                       (if output_state_h ex_active = None
                        then Some (zeros [num_rnn_layers ex_active, shape ex_chunk2 ! 0,
                                          rnn_size ex_active])
                        else output_state_h ex_active),
                     init_state_c_box_handle =
                       (if output_state_h ex_active = None
                        then Some (zeros [num_rnn_layers ex_active, shape ex_chunk2 ! 0,
                                          rnn_size ex_active])
                        else output_state_c ex_active)\<rparr>
               else (handles ex_active)\<lparr>speech_data_handle := Some ex_chunk2,
                                    speech_lengths_handle := Some ex_lens2\<rparr>)"
    and a2: "\<forall>outs. ex_engine (handles (snd ?P2)) = Inr outs \<and> 4 \<le> length outs \<longrightarrow>
               ?P2 = (Inr (outs ! 0, outs ! 1), snd ?P2) \<and>
               output_state_h (snd ?P2) = Some (outs ! 2) \<and>
               output_state_c (snd ?P2) = Some (outs ! 3)"
    using t2 r2 ok2 by blast+
  have hd2: "handles (snd ?P2) =
     \<lparr>speech_data_handle = Some ex_chunk2, speech_lengths_handle = Some ex_lens2,
      init_state_h_box_handle = Some \<lparr>shape = [1, 1, 2], flat = [1, 1]\<rparr>,
      init_state_c_box_handle = Some \<lparr>shape = [1, 1, 2], flat = [2, 2]\<rparr>\<rparr>"
    using g2 m2 h2 c2 by simp
  have "4 \<le> length [ex_chunk2, ex_lens2, \<lparr>shape = [1, 1, 2], flat = [2, 2 :: int]\<rparr>,
                     \<lparr>shape = [1, 1, 2], flat = [4, 4]\<rparr>]"
    by simp
  with a2 o2 have s2: "?P2 = (Inr ([ex_chunk2, ex_lens2, \<lparr>shape = [1, 1, 2], flat = [2, 2]\<rparr>,
                     \<lparr>shape = [1, 1, 2], flat = [4, 4]\<rparr>] ! 0,
                        [ex_chunk2, ex_lens2, \<lparr>shape = [1, 1, 2], flat = [2, 2]\<rparr>,
                     \<lparr>shape = [1, 1, 2], flat = [4, 4]\<rparr>] ! 1), snd ?P2) \<and>
               output_state_h (snd ?P2) = Some ([ex_chunk2, ex_lens2, \<lparr>shape = [1, 1, 2], flat = [2, 2]\<rparr>,
                     \<lparr>shape = [1, 1, 2], flat = [4, 4]\<rparr>] ! 2) \<and>
               output_state_c (snd ?P2) = Some ([ex_chunk2, ex_lens2, \<lparr>shape = [1, 1, 2], flat = [2, 2]\<rparr>,
                     \<lparr>shape = [1, 1, 2], flat = [4, 4]\<rparr>] ! 3)"
    by blast
  have f2: "fst ?P2 = Inr (ex_chunk2, ex_lens2)"
  proof -
    have "fst ?P2 = fst (Inr ([ex_chunk2, ex_lens2, \<lparr>shape = [1, 1, 2], flat = [2, 2 :: int]\<rparr>,
                     \<lparr>shape = [1, 1, 2], flat = [4, 4]\<rparr>] ! 0,
                        [ex_chunk2, ex_lens2, \<lparr>shape = [1, 1, 2], flat = [2, 2]\<rparr>,
                     \<lparr>shape = [1, 1, 2], flat = [4, 4]\<rparr>] ! 1) :: error + int ndarray \<times> int ndarray, snd ?P2)"
      using s2 by (metis)
    then show ?thesis by simp
  qed
  have sh2: "output_state_h (snd ?P2) = Some \<lparr>shape = [1, 1, 2], flat = [2, 2]\<rparr>"
    using s2 by simp
  have sc2: "output_state_c (snd ?P2) = Some \<lparr>shape = [1, 1, 2], flat = [4, 4]\<rparr>"
    using s2 by simp
  show ?thesis using a h z p e r2 m2 h2 c2 hd2 o2 f2 sh2 sc2 by blast
qed

text \<open>
  C5, as the code has it. When the engine raises on the inputs of a \<^verbatim>\<open>predict_chunk\<close>
  call, the state is what the call fed to the engine: the zero state of shape
  \<open>(num_rnn_layers, chunk.shape[0], rnn_size)\<close> when a streaming session held none, and the
  state held before the call otherwise. The engine's exception is the outcome of the call
  (for a streaming session holding \<open>output_state_h\<close>, provided it holds \<open>output_state_c\<close>
  too).
\<close>

theorem predict_chunk_failed_run_state:
  fixes self :: "('a::zero) predictor"
  assumes rank: "3 \<le> length (shape x_chunk)"
    and fail: "run (handles (snd (predict_chunk run self x_chunk x_chunk_lens))) = Inl e"
  shows "(if use_model self = ''deepspeech2_online'' \<and> output_state_h self = None
          then output_state_h (snd (predict_chunk run self x_chunk x_chunk_lens))
                 = Some (zeros [num_rnn_layers self, shape x_chunk ! 0, rnn_size self]) \<and>
               output_state_c (snd (predict_chunk run self x_chunk x_chunk_lens))
                 = Some (zeros [num_rnn_layers self, shape x_chunk ! 0, rnn_size self])
          else output_state_h (snd (predict_chunk run self x_chunk x_chunk_lens))
                 = output_state_h self \<and>
               output_state_c (snd (predict_chunk run self x_chunk x_chunk_lens))
                 = output_state_c self) \<and>
         ((use_model self = ''deepspeech2_online'' \<and> output_state_h self \<noteq> None
             \<longrightarrow> output_state_c self \<noteq> None)
          \<longrightarrow> fst (predict_chunk run self x_chunk x_chunk_lens) = Inl e)"
proof -
  let ?z = "zeros [num_rnn_layers self, shape x_chunk ! 0, rnn_size self] :: 'a ndarray"
  let ?sp = "(handles self)\<lparr>speech_data_handle := Some x_chunk,
                speech_lengths_handle := Some x_chunk_lens\<rparr>"
  consider
      (offline) "use_model self \<noteq> ''deepspeech2_online''"
    | (idle) "use_model self = ''deepspeech2_online''" "output_state_h self = None"
    | (active) h c where "use_model self = ''deepspeech2_online''"
        "output_state_h self = Some h" "output_state_c self = Some c"
    | (broken) h where "use_model self = ''deepspeech2_online''"
        "output_state_h self = Some h" "output_state_c self = None"
    by (cases "output_state_h self"; cases "output_state_c self") auto
  then show ?thesis
  proof cases
    case offline
    have H: "handles (snd (predict_chunk run self x_chunk x_chunk_lens)) = ?sp"
      using rank offline by (simp add: predict_chunk_def Let_def split: sum.splits)
    have "run ?sp = Inl e" using fail unfolding H .
    then have "predict_chunk run self x_chunk x_chunk_lens = (Inl e, self\<lparr>handles := ?sp\<rparr>)"
      using rank offline by (simp add: predict_chunk_def Let_def)
    then show ?thesis using offline by simp
  next
    case idle
    let ?fed = "?sp\<lparr>init_state_h_box_handle := Some ?z, init_state_c_box_handle := Some ?z\<rparr>"
    have H: "handles (snd (predict_chunk run self x_chunk x_chunk_lens)) = ?fed"
      using rank idle by (simp add: predict_chunk_def Let_def split: sum.splits)
    have "run ?fed = Inl e" using fail unfolding H .
    then have "predict_chunk run self x_chunk x_chunk_lens =
                 (Inl e, self\<lparr>output_state_h := Some ?z, output_state_c := Some ?z,
                              handles := ?fed\<rparr>)"
      using rank idle by (simp add: predict_chunk_def Let_def)
    then show ?thesis using idle by simp
  next
    case active
    let ?fed = "?sp\<lparr>init_state_h_box_handle := Some h, init_state_c_box_handle := Some c\<rparr>"
    have H: "handles (snd (predict_chunk run self x_chunk x_chunk_lens)) = ?fed"
      using rank active by (simp add: predict_chunk_def Let_def split: sum.splits)
    have "run ?fed = Inl e" using fail unfolding H .
    then have "predict_chunk run self x_chunk x_chunk_lens = (Inl e, self\<lparr>handles := ?fed\<rparr>)"
      using rank active by (simp add: predict_chunk_def Let_def)
    then show ?thesis using active by simp
  next
    case broken
    have "predict_chunk run self x_chunk x_chunk_lens =
            (Inl AttributeError,
             self\<lparr>handles := ?sp\<lparr>init_state_h_box_handle := Some h\<rparr>\<rparr>)"
      using rank broken by (simp add: predict_chunk_def Let_def)
    then show ?thesis using broken by simp
  qed
qed

theorem predict_chunk_failed_run_state_witness:
  "3 \<le> length (shape ex_chunk) \<and>
   ex_failing_engine (handles (snd (predict_chunk ex_failing_engine ex_session ex_chunk ex_lens)))
     = Inl PredictorError \<and>
   use_model ex_session = ''deepspeech2_online'' \<and> output_state_h ex_session = None \<and>
   output_state_h (snd (predict_chunk ex_failing_engine ex_session ex_chunk ex_lens))
     = Some (zeros [num_rnn_layers ex_session, shape ex_chunk ! 0, rnn_size ex_session]) \<and>
   output_state_c (snd (predict_chunk ex_failing_engine ex_session ex_chunk ex_lens))
     = Some (zeros [num_rnn_layers ex_session, shape ex_chunk ! 0, rnn_size ex_session]) \<and>
   fst (predict_chunk ex_failing_engine ex_session ex_chunk ex_lens) = Inl PredictorError \<and>
   ex_failing_engine (handles (snd (predict_chunk ex_failing_engine ex_active ex_chunk ex_lens)))
     = Inl PredictorError \<and>
   output_state_h ex_active \<noteq> None \<and> output_state_c ex_active \<noteq> None \<and>
   output_state_h (snd (predict_chunk ex_failing_engine ex_active ex_chunk ex_lens))
     = output_state_h ex_active \<and>
   output_state_c (snd (predict_chunk ex_failing_engine ex_active ex_chunk ex_lens))
     = output_state_c ex_active \<and>
   fst (predict_chunk ex_failing_engine ex_active ex_chunk ex_lens) = Inl PredictorError"
proof -
  have r: "3 \<le> length (shape ex_chunk)"
    by code_simp
  have f1: "ex_failing_engine
              (handles (snd (predict_chunk ex_failing_engine ex_session ex_chunk ex_lens)))
            = Inl PredictorError"
    by (simp add: ex_failing_engine_def)
  have f2: "ex_failing_engine
              (handles (snd (predict_chunk ex_failing_engine ex_active ex_chunk ex_lens)))
            = Inl PredictorError"
    by (simp add: ex_failing_engine_def)
  have i: "use_model ex_session = ''deepspeech2_online'' \<and> output_state_h ex_session = None"
    by code_simp
  have a: "use_model ex_active = ''deepspeech2_online'' \<and>
           output_state_h ex_active \<noteq> None \<and> output_state_c ex_active \<noteq> None"
    by code_simp
  note t1 = predict_chunk_failed_run_state
              [where run = ex_failing_engine and self = ex_session and x_chunk = ex_chunk
                 and x_chunk_lens = ex_lens and e = PredictorError, OF r f1]
  note t2 = predict_chunk_failed_run_state
              [where run = ex_failing_engine and self = ex_active and x_chunk = ex_chunk
                 and x_chunk_lens = ex_lens and e = PredictorError, OF r f2]
  have c1: "output_state_h (snd (predict_chunk ex_failing_engine ex_session ex_chunk ex_lens))
     = Some (zeros [num_rnn_layers ex_session, shape ex_chunk ! 0, rnn_size ex_session]) \<and>
   output_state_c (snd (predict_chunk ex_failing_engine ex_session ex_chunk ex_lens))
     = Some (zeros [num_rnn_layers ex_session, shape ex_chunk ! 0, rnn_size ex_session]) \<and>
   fst (predict_chunk ex_failing_engine ex_session ex_chunk ex_lens) = Inl PredictorError"
    using t1 i by simp
  have c2: "output_state_h (snd (predict_chunk ex_failing_engine ex_active ex_chunk ex_lens))
     = output_state_h ex_active \<and>
   output_state_c (snd (predict_chunk ex_failing_engine ex_active ex_chunk ex_lens))
     = output_state_c ex_active \<and>
   fst (predict_chunk ex_failing_engine ex_active ex_chunk ex_lens) = Inl PredictorError"
    using t2 a by simp
  show ?thesis using r f1 f2 i a c1 c2 by blast
qed

text \<open>
  C5, as stated, fails: a fresh streaming session whose first chunk makes the engine raise
  holds the zero state afterwards, not \<^verbatim>\<open>None\<close>.
\<close>

theorem predict_chunk_failed_first_chunk_counterexample:
  "output_state_h ex_session = None \<and> output_state_c ex_session = None \<and>
   fst (predict_chunk ex_failing_engine ex_session ex_chunk ex_lens) = Inl PredictorError \<and>
   output_state_h (snd (predict_chunk ex_failing_engine ex_session ex_chunk ex_lens))
     = Some \<lparr>shape = [1, 1, 2], flat = [0, 0]\<rparr> \<and>
   output_state_c (snd (predict_chunk ex_failing_engine ex_session ex_chunk ex_lens))
     = Some \<lparr>shape = [1, 1, 2], flat = [0, 0]\<rparr>"
  by code_simp

text \<open>
  C6, as the code has it. \<^verbatim>\<open>predict_chunk\<close> compares no batch sizes: for a streaming
  session holding state and a chunk of any batch size, the held tensors go into the state
  handles as they are, neither reshaped nor replaced by zeros, and the call raises only
  what the engine raises on these inputs (or \<open>IndexError\<close> when the engine leaves fewer than
  four outputs).
\<close>

theorem predict_chunk_no_batch_check:
  fixes self :: "('a::zero) predictor"
  assumes online: "use_model self = ''deepspeech2_online''"
    and h: "output_state_h self = Some h" and c: "output_state_c self = Some c"
    and rank: "3 \<le> length (shape x_chunk)"
  shows "handles (snd (predict_chunk run self x_chunk x_chunk_lens)) =
           \<lparr>speech_data_handle = Some x_chunk, speech_lengths_handle = Some x_chunk_lens,
            init_state_h_box_handle = Some h, init_state_c_box_handle = Some c\<rparr> \<and>
         fst (predict_chunk run self x_chunk x_chunk_lens) =
           (case run (handles (snd (predict_chunk run self x_chunk x_chunk_lens))) of
              Inl e \<Rightarrow> Inl e
            | Inr outs \<Rightarrow> if length outs \<le> 3 then Inl IndexError
                           else Inr (outs ! 0, outs ! 1))"
proof -
  let ?fed = "(handles self)\<lparr>speech_data_handle := Some x_chunk,
                speech_lengths_handle := Some x_chunk_lens,
                init_state_h_box_handle := Some h, init_state_c_box_handle := Some c\<rparr>"
  have H: "handles (snd (predict_chunk run self x_chunk x_chunk_lens)) = ?fed"
    using assms by (simp add: predict_chunk_def Let_def split: sum.splits)
  have fedeq: "?fed = \<lparr>speech_data_handle = Some x_chunk, speech_lengths_handle = Some x_chunk_lens,
            init_state_h_box_handle = Some h, init_state_c_box_handle = Some c\<rparr>"
    by (cases "handles self") simp
  have R: "fst (predict_chunk run self x_chunk x_chunk_lens) =
           (case run ?fed of
              Inl e \<Rightarrow> Inl e
            | Inr outs \<Rightarrow> if length outs \<le> 3 then Inl IndexError
                           else Inr (outs ! 0, outs ! 1))"
  proof (cases "run ?fed")
    case (Inl e)
    then show ?thesis using assms by (simp add: predict_chunk_def Let_def)
  next
    case (Inr outs)
    then show ?thesis using assms by (simp add: predict_chunk_def Let_def)
  qed
  show ?thesis
  proof (intro conjI)
    show "handles (snd (predict_chunk run self x_chunk x_chunk_lens)) =
           \<lparr>speech_data_handle = Some x_chunk, speech_lengths_handle = Some x_chunk_lens,
            init_state_h_box_handle = Some h, init_state_c_box_handle = Some c\<rparr>"
      using H fedeq by simp
    show "fst (predict_chunk run self x_chunk x_chunk_lens) =
           (case run (handles (snd (predict_chunk run self x_chunk x_chunk_lens))) of
              Inl e \<Rightarrow> Inl e
            | Inr outs \<Rightarrow> if length outs \<le> 3 then Inl IndexError
                           else Inr (outs ! 0, outs ! 1))"
      unfolding H by (rule R)
  qed
qed

theorem predict_chunk_no_batch_check_witness:
  "use_model ex_active = ''deepspeech2_online'' \<and>
   output_state_h ex_active = Some \<lparr>shape = [1, 1, 2], flat = [1, 1]\<rparr> \<and>
   output_state_c ex_active = Some \<lparr>shape = [1, 1, 2], flat = [2, 2]\<rparr> \<and>
   3 \<le> length (shape ex_chunk2) \<and> shape ex_chunk2 ! 0 = 2 \<and>
   handles (snd (predict_chunk ex_engine ex_active ex_chunk2 ex_lens2)) =
     \<lparr>speech_data_handle = Some ex_chunk2, speech_lengths_handle = Some ex_lens2,
      init_state_h_box_handle = Some \<lparr>shape = [1, 1, 2], flat = [1, 1]\<rparr>,
      init_state_c_box_handle = Some \<lparr>shape = [1, 1, 2], flat = [2, 2]\<rparr>\<rparr> \<and>
   fst (predict_chunk ex_engine ex_active ex_chunk2 ex_lens2) =
     (case ex_engine (handles (snd (predict_chunk ex_engine ex_active ex_chunk2 ex_lens2))) of
        Inl e \<Rightarrow> Inl e
      | Inr outs \<Rightarrow> if length outs \<le> 3 then Inl IndexError else Inr (outs ! 0, outs ! 1)) \<and>
   fst (predict_chunk ex_engine ex_active ex_chunk2 ex_lens2) = Inr (ex_chunk2, ex_lens2)"
proof -
  have m: "use_model ex_active = ''deepspeech2_online''"
    by code_simp
  have h: "output_state_h ex_active = Some \<lparr>shape = [1, 1, 2], flat = [1, 1]\<rparr>"
    by code_simp
  have c: "output_state_c ex_active = Some \<lparr>shape = [1, 1, 2], flat = [2, 2]\<rparr>"
    by code_simp
  have r: "3 \<le> length (shape ex_chunk2)"
    by code_simp
  have b: "shape ex_chunk2 ! 0 = 2"
    by code_simp
  have v: "fst (predict_chunk ex_engine ex_active ex_chunk2 ex_lens2) = Inr (ex_chunk2, ex_lens2)"
    by code_simp
  note t = predict_chunk_no_batch_check
             [OF m h c r, where run = ex_engine and x_chunk_lens = ex_lens2]
  show ?thesis using m h c r b v t by blast
qed

text \<open>
  C6, as stated, fails: after a first chunk of batch size 1, a chunk of batch size 2 is
  run with the held state of shape \<open>(1, 1, 2)\<close> and the call returns.
\<close>

theorem predict_chunk_batch_size_change_counterexample:
  "shape ex_chunk ! 0 = 1 \<and> shape ex_chunk2 ! 0 = 2 \<and>
   fst (predict_chunk ex_engine ex_session ex_chunk ex_lens) = Inr (ex_chunk, ex_lens) \<and>
   output_state_h (snd (predict_chunk ex_engine ex_session ex_chunk ex_lens))
     = Some \<lparr>shape = [1, 1, 2], flat = [1, 1]\<rparr> \<and>
   fst (predict_chunk ex_engine (snd (predict_chunk ex_engine ex_session ex_chunk ex_lens))
          ex_chunk2 ex_lens2) = Inr (ex_chunk2, ex_lens2) \<and>
   output_state_h (snd (predict_chunk ex_engine
                          (snd (predict_chunk ex_engine ex_session ex_chunk ex_lens))
                          ex_chunk2 ex_lens2))
     = Some \<lparr>shape = [1, 1, 2], flat = [2, 2]\<rparr>"
  by code_simp

section \<open>Sorting\<close>

lemma sorted_reverse_mset: "mset (sorted_reverse k xs) = mset xs"
  by (simp add: sorted_reverse_def)

lemma sorted_reverse_length: "length (sorted_reverse k xs) = length xs"
  by (simp add: sorted_reverse_def)

lemma sorted_reverse_set: "set (sorted_reverse k xs) = set xs"
  by (simp add: sorted_reverse_def)

lemma sorted_reverse_Nil: "(sorted_reverse k xs = []) = (xs = [])"
  using sorted_reverse_length [of k xs] by (metis length_0_conv)

lemma sorted_reverse_head_max:
  assumes "sorted_reverse k xs = y # ys" and "z \<in> set xs"
  shows "k z \<le> k y"
proof -
  have "sorted (map (\<lambda>x. - int (k x)) (y # ys))"
    using assms(1) sorted_sort_key [of "\<lambda>x. - int (k x)" xs] by (simp add: sorted_reverse_def)
  moreover have "z \<in> set (y # ys)"
    using assms sorted_reverse_set [of k xs] by simp
  ultimately show ?thesis by auto
qed

lemma sorted_reverse_stable:
  "filter (\<lambda>x. k x = c) (sorted_reverse k xs) = filter (\<lambda>x. k x = c) xs"
proof -
  have "filter (\<lambda>x. - int (k x) = - int c) (sort_key (\<lambda>x. - int (k x)) xs)
        = filter (\<lambda>x. - int (k x) = - int c) xs"
    by (rule sort_key_stable)
  then show ?thesis by (simp add: sorted_reverse_def)
qed

lemma sorted_reverse_descending:
  "i \<le> j \<Longrightarrow> j < length xs \<Longrightarrow> k (sorted_reverse k xs ! j) \<le> k (sorted_reverse k xs ! i)"
proof -
  assume ij: "i \<le> j" "j < length xs"
  have s: "sorted (map (\<lambda>x. - int (k x)) (sorted_reverse k xs))"
    using sorted_sort_key [of "\<lambda>x. - int (k x)" xs] by (simp add: sorted_reverse_def)
  have "map (\<lambda>x. - int (k x)) (sorted_reverse k xs) ! i \<le> map (\<lambda>x. - int (k x)) (sorted_reverse k xs) ! j"
    using s ij by (intro sorted_nth_mono) (simp_all add: sorted_reverse_length)
  then show ?thesis using ij by (simp add: sorted_reverse_length)
qed

section \<open>The loop of the collation\<close>

lemma for_each_append:
  "for_each (xs @ ys) body st =
     (case for_each xs body st of Inl e \<Rightarrow> Inl e | Inr st' \<Rightarrow> for_each ys body st')"
  by (induction xs arbitrary: st) (auto split: sum.splits)

lemma for_each_snoc:
  "for_each (xs @ [x]) body st =
     (case for_each xs body st of Inl e \<Rightarrow> Inl e | Inr st' \<Rightarrow> body x st')"
  by (simp add: for_each_append split: sum.splits)

lemma collate_body_Inr:
  assumes "collate_body batch x st = Inr st'"
  shows "x < length batch \<and> x < length (inputs st) \<and> x < length (labels st) \<and>
         (\<exists>row lab.
            setitem2 (inputs st ! x) (shape1 (fst (batch ! x))) (fst (batch ! x)) = Inr row \<and>
            setitem1 (labels st ! x) (length (snd (batch ! x))) (snd (batch ! x)) = Inr lab \<and>
            st' = \<lparr>inputs = (inputs st)[x := row], labels = (labels st)[x := lab],
                   input_lens = input_lens st @ [shape1 (fst (batch ! x))],
                   label_lens = label_lens st @ [length (snd (batch ! x))]\<rparr>)"
  using assms
  by (simp add: collate_body_def Let_def split: if_splits sum.splits)

lemma collate_body_Inl:
  assumes "collate_body batch x st = Inl e"
    and "x < length batch" and "x < length (inputs st)" and "x < length (labels st)"
  shows "e = ValueError \<and>
         (isl (setitem2 (inputs st ! x) (shape1 (fst (batch ! x))) (fst (batch ! x))) \<or>
          isl (setitem1 (labels st ! x) (length (snd (batch ! x))) (snd (batch ! x))))"
  using assms
  by (auto simp add: collate_body_def Let_def setitem2_def setitem1_def split: if_splits sum.splits)

lemma collate_loop_Inr:
  assumes "for_each [0..<n] (collate_body batch) st0 = Inr st"
  shows "n \<le> length batch \<and> n \<le> length (inputs st0) \<and> n \<le> length (labels st0) \<and>
         length (inputs st) = length (inputs st0) \<and>
         length (labels st) = length (labels st0) \<and>
         input_lens st = input_lens st0 @ map (\<lambda>s. shape1 (fst s)) (take n batch) \<and>
         label_lens st = label_lens st0 @ map (\<lambda>s. length (snd s)) (take n batch) \<and>
         (\<forall>i<n. setitem2 (inputs st0 ! i) (shape1 (fst (batch ! i))) (fst (batch ! i))
                  = Inr (inputs st ! i)) \<and>
         (\<forall>i<n. setitem1 (labels st0 ! i) (length (snd (batch ! i))) (snd (batch ! i))
                  = Inr (labels st ! i)) \<and>
         (\<forall>i\<ge>n. inputs st ! i = inputs st0 ! i) \<and>
         (\<forall>i\<ge>n. labels st ! i = labels st0 ! i)"
  using assms
proof (induction n arbitrary: st)
  case 0
  then show ?case by simp
next
  case (Suc n)
  from Suc.prems obtain st1 where
    l: "for_each [0..<n] (collate_body batch) st0 = Inr st1" and
    b: "collate_body batch n st1 = Inr st"
    by (auto simp add: for_each_snoc split: sum.splits)
  note ih = Suc.IH [OF l]
  from collate_body_Inr [OF b] obtain row lab where
    n: "n < length batch" "n < length (inputs st1)" "n < length (labels st1)" and
    r: "setitem2 (inputs st1 ! n) (shape1 (fst (batch ! n))) (fst (batch ! n)) = Inr row" and
    t: "setitem1 (labels st1 ! n) (length (snd (batch ! n))) (snd (batch ! n)) = Inr lab" and
    s: "st = \<lparr>inputs = (inputs st1)[n := row], labels = (labels st1)[n := lab],
              input_lens = input_lens st1 @ [shape1 (fst (batch ! n))],
              label_lens = label_lens st1 @ [length (snd (batch ! n))]\<rparr>"
    by blast
  have a1: "inputs st1 ! n = inputs st0 ! n" and a2: "labels st1 ! n = labels st0 ! n"
    using ih by simp_all
  have c1: "\<forall>i<Suc n. setitem2 (inputs st0 ! i) (shape1 (fst (batch ! i))) (fst (batch ! i))
                  = Inr (inputs st ! i)"
  proof (intro allI impI)
    fix i assume "i < Suc n"
    then consider "i < n" | "i = n" by linarith
    then show "setitem2 (inputs st0 ! i) (shape1 (fst (batch ! i))) (fst (batch ! i))
                  = Inr (inputs st ! i)"
    proof cases
      case 1 then show ?thesis using ih s by simp
    next
      case 2 then show ?thesis using r a1 n s by simp
    qed
  qed
  have c2: "\<forall>i<Suc n. setitem1 (labels st0 ! i) (length (snd (batch ! i))) (snd (batch ! i))
                  = Inr (labels st ! i)"
  proof (intro allI impI)
    fix i assume "i < Suc n"
    then consider "i < n" | "i = n" by linarith
    then show "setitem1 (labels st0 ! i) (length (snd (batch ! i))) (snd (batch ! i))
                  = Inr (labels st ! i)"
    proof cases
      case 1 then show ?thesis using ih s by simp
    next
      case 2 then show ?thesis using t a2 n s by simp
    qed
  qed
  have c3: "input_lens st = input_lens st0 @ map (\<lambda>s. shape1 (fst s)) (take (Suc n) batch)"
    using ih s n by (simp add: take_Suc_conv_app_nth)
  have c4: "label_lens st = label_lens st0 @ map (\<lambda>s. length (snd s)) (take (Suc n) batch)"
    using ih s n by (simp add: take_Suc_conv_app_nth)
  have c5: "\<forall>i\<ge>Suc n. inputs st ! i = inputs st0 ! i"
    using ih s by simp
  have c6: "\<forall>i\<ge>Suc n. labels st ! i = labels st0 ! i"
    using ih s by simp
  have c7: "Suc n \<le> length batch \<and> Suc n \<le> length (inputs st0) \<and> Suc n \<le> length (labels st0)"
    using ih n by simp
  have c8: "length (inputs st) = length (inputs st0) \<and> length (labels st) = length (labels st0)"
    using ih s by simp
  show ?case using c1 c2 c3 c4 c5 c6 c7 c8 by blast
qed

lemma collate_loop_Inl:
  assumes "for_each [0..<n] (collate_body batch) st0 = Inl e"
    and "n \<le> length batch" and "n \<le> length (inputs st0)" and "n \<le> length (labels st0)"
  shows "e = ValueError \<and>
         (\<exists>i<n. isl (setitem2 (inputs st0 ! i) (shape1 (fst (batch ! i))) (fst (batch ! i))) \<or>
                 isl (setitem1 (labels st0 ! i) (length (snd (batch ! i))) (snd (batch ! i))))"
  using assms
proof (induction n)
  case 0
  then show ?case by simp
next
  case (Suc n)
  show ?case
  proof (cases "for_each [0..<n] (collate_body batch) st0")
    case (Inl e')
    then have "e' = e" using Suc.prems(1) by (simp add: for_each_snoc)
    then show ?thesis using Suc.IH Inl Suc.prems by (auto intro: less_SucI)
  next
    case (Inr st1)
    then have b: "collate_body batch n st1 = Inl e"
      using Suc.prems(1) by (simp add: for_each_snoc)
    note ih = collate_loop_Inr [OF Inr]
    have "n < length batch" "n < length (inputs st1)" "n < length (labels st1)"
      using Suc.prems ih by simp_all
    from collate_body_Inl [OF b this]
    have "e = ValueError \<and>
         (isl (setitem2 (inputs st0 ! n) (shape1 (fst (batch ! n))) (fst (batch ! n))) \<or>
          isl (setitem1 (labels st0 ! n) (length (snd (batch ! n))) (snd (batch ! n))))"
      using ih by simp
    then show ?thesis by blast
  qed
qed

lemma setitem1_zeros:
  assumes "length t \<le> m"
  shows "setitem1 (replicate m 0) (length t) t = Inr (t @ replicate (m - length t) 0)"
proof -
  have "map (\<lambda>c. t ! bcast (length t) c) [0..<length t] = map (\<lambda>c. t ! c) [0..<length t]"
    by (rule map_cong) (auto simp add: bcast_def)
  then have "map (\<lambda>c. t ! bcast (length t) c) [0..<length t] = t"
    by (simp add: map_nth)
  then show ?thesis using assms
    by (simp add: setitem1_def Let_def fits_def min_absorb1)
qed

lemma setitem2_zeros:
  assumes "shape1 src \<le> T"
  shows "setitem2 (zeros2 F T) (shape1 src) src =
     (if fits (shape0 src) F
      then Inr \<lparr>shape0 = F, shape1 = T,
                rows = map (\<lambda>r. map (\<lambda>c. rows src ! bcast (shape0 src) r ! c) [0..<shape1 src]
                                  @ replicate (T - shape1 src) 0) [0..<F]\<rparr>
      else Inl ValueError)"
proof -
  have a: "map (\<lambda>c. rows src ! bcast (shape0 src) r ! bcast (shape1 src) c) [0..<shape1 src]
         = map (\<lambda>c. rows src ! bcast (shape0 src) r ! c) [0..<shape1 src]" for r
    by (rule map_cong) (auto simp add: bcast_def)
  show ?thesis using assms
    by (simp add: setitem2_def Let_def zeros2_def min_absorb1 a fits_def)
qed

lemma collate_fn_unfold:
  assumes "sorted_reverse (\<lambda>s. shape1 (fst s)) batch0 = first # rest"
    and "sorted_reverse (\<lambda>s. length (snd s)) (first # rest) = longest # others"
  shows "collate_fn batch0 =
     for_each [0..<length batch0] (collate_body (first # rest))
       \<lparr>inputs = replicate (length batch0) (zeros2 (shape0 (fst first)) (shape1 (fst first))),
        labels = replicate (length batch0) (replicate (length (snd longest)) 0),
        input_lens = [], label_lens = []\<rparr>"
proof -
  have "length (first # rest) = length batch0"
    using assms(1) sorted_reverse_length [of "\<lambda>s. shape1 (fst s)" batch0] by simp
  then show ?thesis using assms by (simp add: collate_fn_def Let_def)
qed

lemma collate_fn_Nil: "collate_fn [] = Inl IndexError"
  by (simp add: collate_fn_def sorted_reverse_def)

lemma sorted_reverse_Cons_ex:
  "xs \<noteq> [] \<Longrightarrow> \<exists>y ys. sorted_reverse k xs = y # ys"
  using sorted_reverse_Nil [of k xs] by (cases "sorted_reverse k xs") auto


lemma collate_loop_parts:
  assumes "for_each [0..<n] (collate_body batch) st0 = Inr st"
  shows "length (inputs st) = length (inputs st0)"
    and "length (labels st) = length (labels st0)"
    and "input_lens st = input_lens st0 @ map (\<lambda>s. shape1 (fst s)) (take n batch)"
    and "label_lens st = label_lens st0 @ map (\<lambda>s. length (snd s)) (take n batch)"
    and "i < n \<Longrightarrow> setitem2 (inputs st0 ! i) (shape1 (fst (batch ! i))) (fst (batch ! i))
                  = Inr (inputs st ! i)"
    and "i < n \<Longrightarrow> setitem1 (labels st0 ! i) (length (snd (batch ! i))) (snd (batch ! i))
                  = Inr (labels st ! i)"
  using collate_loop_Inr [OF assms] by blast+

lemma sorted_batch_bounds:
  assumes s: "sorted_reverse (\<lambda>s. shape1 (fst s)) batch0 = first # rest"
    and l: "sorted_reverse (\<lambda>s. length (snd s)) (first # rest) = longest # others"
    and i: "i < length batch0"
  shows "(first # rest) ! i \<in> set batch0"
    and "shape1 (fst ((first # rest) ! i)) \<le> shape1 (fst first)"
    and "length (snd ((first # rest) ! i)) \<le> length (snd longest)"
proof -
  have len: "length (first # rest) = length batch0"
    using s sorted_reverse_length [of "\<lambda>s. shape1 (fst s)" batch0] by simp
  have mem: "(first # rest) ! i \<in> set (first # rest)"
    using i len by (metis nth_mem)
  have "set (first # rest) = set batch0"
    using sorted_reverse_set [of "\<lambda>s. shape1 (fst s)" batch0] by (simp only: s)
  with mem show m: "(first # rest) ! i \<in> set batch0"
    by (simp only:)
  show "shape1 (fst ((first # rest) ! i)) \<le> shape1 (fst first)"
    using sorted_reverse_head_max [OF s m] .
  have "(first # rest) ! i \<in> set (first # rest)"
    using i len by (metis nth_mem)
  from sorted_reverse_head_max [OF l this]
  show "length (snd ((first # rest) ! i)) \<le> length (snd longest)" .
qed

lemma collate_fn_Inr:
  fixes batch0 :: "('a::zero) sample list"
  assumes s: "sorted_reverse (\<lambda>s. shape1 (fst s)) batch0 = first # rest"
    and l: "sorted_reverse (\<lambda>s. length (snd s)) (first # rest) = longest # others"
    and r: "collate_fn batch0 = Inr out"
  shows "length (inputs out) = length batch0"
    and "length (labels out) = length batch0"
    and "input_lens out = map (\<lambda>s. shape1 (fst s)) (first # rest)"
    and "label_lens out = map (\<lambda>s. length (snd s)) (first # rest)"
    and "\<forall>i<length batch0.
           fits (shape0 (fst ((first # rest) ! i))) (shape0 (fst first)) \<and>
           inputs out ! i =
             \<lparr>shape0 = shape0 (fst first), shape1 = shape1 (fst first),
              rows = map (\<lambda>r. map (\<lambda>c. rows (fst ((first # rest) ! i))
                                           ! bcast (shape0 (fst ((first # rest) ! i))) r ! c)
                                   [0..<shape1 (fst ((first # rest) ! i))]
                               @ replicate (shape1 (fst first) - shape1 (fst ((first # rest) ! i))) 0)
                         [0..<shape0 (fst first)]\<rparr>"
    and "\<forall>i<length batch0.
           labels out ! i = snd ((first # rest) ! i)
              @ replicate (length (snd longest) - length (snd ((first # rest) ! i))) 0"
proof -
  let ?sb = "first # rest"
  let ?st0 = "\<lparr>inputs = replicate (length batch0)
                         (zeros2 (shape0 (fst first)) (shape1 (fst first)) :: 'a ndarray2),
        labels = replicate (length batch0) (replicate (length (snd longest)) (0::int)),
        input_lens = [], label_lens = []\<rparr>"
  have len: "length ?sb = length batch0"
    using s sorted_reverse_length [of "\<lambda>s. shape1 (fst s)" batch0] by simp
  have loop: "for_each [0..<length batch0] (collate_body ?sb) ?st0 = Inr out"
    using r collate_fn_unfold [OF s l] by simp
  note inv = collate_loop_parts [OF loop]
  show "length (inputs out) = length batch0" using inv(1) by simp
  show "length (labels out) = length batch0" using inv(2) by simp
  show "input_lens out = map (\<lambda>s. shape1 (fst s)) ?sb"
    using inv(3) len by simp
  show "label_lens out = map (\<lambda>s. length (snd s)) ?sb"
    using inv(4) len by simp
  show "\<forall>i<length batch0.
           fits (shape0 (fst (?sb ! i))) (shape0 (fst first)) \<and>
           inputs out ! i =
             \<lparr>shape0 = shape0 (fst first), shape1 = shape1 (fst first),
              rows = map (\<lambda>r. map (\<lambda>c. rows (fst (?sb ! i))
                                           ! bcast (shape0 (fst (?sb ! i))) r ! c)
                                   [0..<shape1 (fst (?sb ! i))]
                               @ replicate (shape1 (fst first) - shape1 (fst (?sb ! i))) 0)
                         [0..<shape0 (fst first)]\<rparr>"
  proof (intro allI impI)
    fix i assume i: "i < length batch0"
    have "setitem2 (inputs ?st0 ! i) (shape1 (fst (?sb ! i))) (fst (?sb ! i)) = Inr (inputs out ! i)"
      using inv(5) [OF i] .
    then have e: "setitem2 (zeros2 (shape0 (fst first)) (shape1 (fst first)))
                    (shape1 (fst (?sb ! i))) (fst (?sb ! i)) = Inr (inputs out ! i)"
      using i by simp
    note b = sorted_batch_bounds(2) [OF s l i]
    show "fits (shape0 (fst (?sb ! i))) (shape0 (fst first)) \<and>
           inputs out ! i =
             \<lparr>shape0 = shape0 (fst first), shape1 = shape1 (fst first),
              rows = map (\<lambda>r. map (\<lambda>c. rows (fst (?sb ! i))
                                           ! bcast (shape0 (fst (?sb ! i))) r ! c)
                                   [0..<shape1 (fst (?sb ! i))]
                               @ replicate (shape1 (fst first) - shape1 (fst (?sb ! i))) 0)
                         [0..<shape0 (fst first)]\<rparr>"
      using e unfolding setitem2_zeros [OF b]
      by (cases "fits (shape0 (fst (?sb ! i))) (shape0 (fst first))") simp_all
  qed
  show "\<forall>i<length batch0.
           labels out ! i = snd (?sb ! i)
              @ replicate (length (snd longest) - length (snd (?sb ! i))) 0"
  proof (intro allI impI)
    fix i assume i: "i < length batch0"
    have "setitem1 (labels ?st0 ! i) (length (snd (?sb ! i))) (snd (?sb ! i)) = Inr (labels out ! i)"
      using inv(6) [OF i] .
    then have e: "setitem1 (replicate (length (snd longest)) 0)
                    (length (snd (?sb ! i))) (snd (?sb ! i)) = Inr (labels out ! i)"
      using i by simp
    note b = sorted_batch_bounds(3) [OF s l i]
    show "labels out ! i = snd (?sb ! i)
              @ replicate (length (snd longest) - length (snd (?sb ! i))) 0"
      using e unfolding setitem1_zeros [OF b] by simp
  qed
qed

lemma collate_fn_Inl:
  fixes batch0 :: "('a::zero) sample list"
  assumes s: "sorted_reverse (\<lambda>s. shape1 (fst s)) batch0 = first # rest"
    and r: "collate_fn batch0 = Inl e"
  shows "e = ValueError \<and> (\<exists>s\<in>set batch0. \<not> fits (shape0 (fst s)) (shape0 (fst first)))"
proof -
  let ?sb = "first # rest"
  obtain longest others where l: "sorted_reverse (\<lambda>s. length (snd s)) ?sb = longest # others"
    using sorted_reverse_Cons_ex [of ?sb] by blast
  let ?st0 = "\<lparr>inputs = replicate (length batch0)
                         (zeros2 (shape0 (fst first)) (shape1 (fst first)) :: 'a ndarray2),
        labels = replicate (length batch0) (replicate (length (snd longest)) (0::int)),
        input_lens = [], label_lens = []\<rparr>"
  have len: "length ?sb = length batch0"
    using s sorted_reverse_length [of "\<lambda>s. shape1 (fst s)" batch0] by simp
  have loop: "for_each [0..<length batch0] (collate_body ?sb) ?st0 = Inl e"
    using r collate_fn_unfold [OF s l] by simp
  have "length batch0 \<le> length ?sb" "length batch0 \<le> length (inputs ?st0)"
       "length batch0 \<le> length (labels ?st0)"
    using len by simp_all
  from collate_loop_Inl [OF loop this]
  obtain i where v: "e = ValueError" and i: "i < length batch0" and
    f: "isl (setitem2 (inputs ?st0 ! i) (shape1 (fst (?sb ! i))) (fst (?sb ! i))) \<or>
        isl (setitem1 (labels ?st0 ! i) (length (snd (?sb ! i))) (snd (?sb ! i)))"
    by blast
  note b = sorted_batch_bounds [OF s l i]
  have "\<not> isl (setitem1 (labels ?st0 ! i) (length (snd (?sb ! i))) (snd (?sb ! i)))"
    using i setitem1_zeros [OF b(3)] by simp
  then have "isl (setitem2 (zeros2 (shape0 (fst first)) (shape1 (fst first)))
                (shape1 (fst (?sb ! i))) (fst (?sb ! i)))"
    using f i by simp
  then have "\<not> fits (shape0 (fst (?sb ! i))) (shape0 (fst first))"
    unfolding setitem2_zeros [OF b(2)] by (simp split: if_splits)
  then show ?thesis using v b(1) by blast
qed

lemma collate_fn_fits:
  assumes s: "sorted_reverse (\<lambda>s. shape1 (fst s)) batch0 = first # rest"
    and r: "collate_fn batch0 = Inr out" and m: "x \<in> set batch0"
  shows "fits (shape0 (fst x)) (shape0 (fst first))"
proof -
  obtain longest others where l: "sorted_reverse (\<lambda>s. length (snd s)) (first # rest) = longest # others"
    using sorted_reverse_Cons_ex [of "first # rest"] by blast
  have "x \<in> set (first # rest)"
    using m s sorted_reverse_set [of "\<lambda>s. shape1 (fst s)" batch0] by simp
  then obtain i where "i < length (first # rest)" and x: "(first # rest) ! i = x"
    by (meson in_set_conv_nth)
  then have i: "i < length batch0"
    using s sorted_reverse_length [of "\<lambda>s. shape1 (fst s)" batch0] by simp
  show ?thesis using collate_fn_Inr(5) [OF s l r] i x by auto
qed

lemma collate_fn_Inr_nonempty:
  fixes batch0 :: "('a::zero) sample list"
  assumes "collate_fn batch0 = Inr out"
  shows "batch0 \<noteq> []"
  using assms by (auto simp add: collate_fn_Nil)


lemma sorted_reverse_id:
  assumes "sorted_wrt (\<lambda>a b. k b \<le> k a) xs"
  shows "sorted_reverse k xs = xs"
proof -
  have "sorted (map (\<lambda>x. - int (k x)) xs)"
    using assms by (simp add: sorted_map)
  then show ?thesis
    unfolding sorted_reverse_def by (rule sort_key_id_if_sorted)
qed


lemma sorted_reverse_head_Max:
  assumes "sorted_reverse k xs = y # ys"
  shows "k y = Max (k ` set xs)"
proof -
  have "y \<in> set (y # ys)" by simp
  then have m: "y \<in> set xs"
    using sorted_reverse_set [of k xs] by (simp only: assms)
  have "Max (k ` set xs) = k y"
  proof (rule Max_eqI)
    show "finite (k ` set xs)" by simp
    show "\<And>v. v \<in> k ` set xs \<Longrightarrow> v \<le> k y"
      using sorted_reverse_head_max [OF assms] by auto
    show "k y \<in> k ` set xs" using m by simp
  qed
  then show ?thesis by simp
qed

section \<open>Properties of the collation\<close>

text \<open>
  C1, as the code has it. The returned batch lists the samples in the order of the input
  list stably sorted by descending feature length (\<open>sb\<close> below), which is the input order
  when the input is already in non-increasing length order: the sorted list is a
  permutation of the input that keeps samples of equal length in their input order, and
  entry \<open>i\<close> of \<open>input_lens\<close> and \<open>label_lens\<close> and row \<open>i\<close> of \<open>labels\<close> and \<open>inputs\<close>
  hold the true lengths, the labels and the feature cells of its \<open>i\<close>-th sample. Row \<open>i\<close>
  of \<open>inputs\<close> is given in full: it has the row count of the longest sample and the
  largest feature length as width, each of its rows is the sample's row followed by zeros
  (a feature of a single row is repeated on every row, by broadcasting), and row \<open>i\<close> of
  \<open>labels\<close> is the sample's labels followed by zeros up to the largest label length.
\<close>

theorem collate_fn_sorted_order:
  fixes batch0 :: "('a::zero) sample list"
  assumes r: "collate_fn batch0 = Inr out"
    and sb: "sb = sorted_reverse (\<lambda>s. shape1 (fst s)) batch0"
  shows "mset sb = mset batch0 \<and>
         (\<forall>n. filter (\<lambda>s. shape1 (fst s) = n) sb = filter (\<lambda>s. shape1 (fst s) = n) batch0) \<and>
         (\<forall>i j. i \<le> j \<and> j < length sb \<longrightarrow> shape1 (fst (sb ! j)) \<le> shape1 (fst (sb ! i))) \<and>
         (sorted_wrt (\<lambda>a b. shape1 (fst b) \<le> shape1 (fst a)) batch0 \<longrightarrow> sb = batch0) \<and>
         length (inputs out) = length sb \<and> length (labels out) = length sb \<and>
         input_lens out = map (\<lambda>s. shape1 (fst s)) sb \<and>
         label_lens out = map (\<lambda>s. length (snd s)) sb \<and>
         (\<forall>i<length sb.
            take (length (snd (sb ! i))) (labels out ! i) = snd (sb ! i) \<and>
            (\<forall>r<shape0 (inputs out ! i). \<forall>c<shape1 (fst (sb ! i)).
               rows (inputs out ! i) ! r ! c
                 = rows (fst (sb ! i)) ! bcast (shape0 (fst (sb ! i))) r ! c)) \<and>
         sb \<noteq> [] \<and>
         shape1 (fst (hd sb)) = Max ((\<lambda>s. shape1 (fst s)) ` set batch0) \<and>
         (\<forall>i<length sb.
            fits (shape0 (fst (sb ! i))) (shape0 (fst (hd sb))) \<and>
            inputs out ! i =
              \<lparr>shape0 = shape0 (fst (hd sb)), shape1 = shape1 (fst (hd sb)),
               rows = map (\<lambda>r. map (\<lambda>c. rows (fst (sb ! i)) ! bcast (shape0 (fst (sb ! i))) r ! c)
                                    [0..<shape1 (fst (sb ! i))]
                                @ replicate (shape1 (fst (hd sb)) - shape1 (fst (sb ! i))) 0)
                          [0..<shape0 (fst (hd sb))]\<rparr> \<and>
            labels out ! i =
              snd (sb ! i) @ replicate (Max ((\<lambda>s. length (snd s)) ` set batch0)
                                          - length (snd (sb ! i))) 0)"
proof -
  have "batch0 \<noteq> []" using r by (rule collate_fn_Inr_nonempty)
  then obtain first rest where s: "sorted_reverse (\<lambda>s. shape1 (fst s)) batch0 = first # rest"
    using sorted_reverse_Cons_ex by blast
  obtain longest others where
    l: "sorted_reverse (\<lambda>s. length (snd s)) (first # rest) = longest # others"
    using sorted_reverse_Cons_ex [of "first # rest"] by blast
  note c = collate_fn_Inr [OF s l r]
  have sbe: "sb = first # rest" using sb s by simp
  have hd: "hd sb = first" using sbe by simp
  have len: "length sb = length batch0"
    unfolding sb by (rule sorted_reverse_length)
  have sets: "set (first # rest) = set batch0"
    using sorted_reverse_set [of "\<lambda>s. shape1 (fst s)" batch0] by (simp only: s)
  have tmax: "shape1 (fst first) = Max ((\<lambda>s. shape1 (fst s)) ` set batch0)"
    using s by (rule sorted_reverse_head_Max)
  have lmax: "length (snd longest) = Max ((\<lambda>s. length (snd s)) ` set batch0)"
    using sorted_reverse_head_Max [OF l] by (simp only: sets)
  have p1: "mset sb = mset batch0"
    unfolding sb by (rule sorted_reverse_mset)
  have p2: "\<forall>n. filter (\<lambda>s. shape1 (fst s) = n) sb = filter (\<lambda>s. shape1 (fst s) = n) batch0"
    unfolding sb by (intro allI sorted_reverse_stable)
  have p3: "\<forall>i j. i \<le> j \<and> j < length sb \<longrightarrow> shape1 (fst (sb ! j)) \<le> shape1 (fst (sb ! i))"
  proof (intro allI impI)
    fix i j assume "i \<le> j \<and> j < length sb"
    then have "i \<le> j" "j < length batch0" using len by simp_all
    then show "shape1 (fst (sb ! j)) \<le> shape1 (fst (sb ! i))"
      unfolding sb by (rule sorted_reverse_descending)
  qed
  have p4: "sorted_wrt (\<lambda>a b. shape1 (fst b) \<le> shape1 (fst a)) batch0 \<longrightarrow> sb = batch0"
    unfolding sb by (intro impI sorted_reverse_id)
  have p5: "length (inputs out) = length sb" using c(1) len by simp
  have p6: "length (labels out) = length sb" using c(2) len by simp
  have p7: "input_lens out = map (\<lambda>s. shape1 (fst s)) sb" using c(3) sbe by simp
  have p8: "label_lens out = map (\<lambda>s. length (snd s)) sb" using c(4) sbe by simp
  have inp: "inputs out ! i =
             \<lparr>shape0 = shape0 (fst first), shape1 = shape1 (fst first),
              rows = map (\<lambda>r. map (\<lambda>c. rows (fst (sb ! i)) ! bcast (shape0 (fst (sb ! i))) r ! c)
                                   [0..<shape1 (fst (sb ! i))]
                               @ replicate (shape1 (fst first) - shape1 (fst (sb ! i))) 0)
                         [0..<shape0 (fst first)]\<rparr>"
    and fit: "fits (shape0 (fst (sb ! i))) (shape0 (fst first))"
    and lab: "labels out ! i
                = snd (sb ! i) @ replicate (length (snd longest) - length (snd (sb ! i))) 0"
    if "i < length sb" for i
  proof -
    have i: "i < length batch0" using that len by simp
    show "inputs out ! i =
             \<lparr>shape0 = shape0 (fst first), shape1 = shape1 (fst first),
              rows = map (\<lambda>r. map (\<lambda>c. rows (fst (sb ! i)) ! bcast (shape0 (fst (sb ! i))) r ! c)
                                   [0..<shape1 (fst (sb ! i))]
                               @ replicate (shape1 (fst first) - shape1 (fst (sb ! i))) 0)
                         [0..<shape0 (fst first)]\<rparr>"
      using c(5) i sbe by blast
    show "fits (shape0 (fst (sb ! i))) (shape0 (fst first))"
      using c(5) i sbe by blast
    show "labels out ! i
                = snd (sb ! i) @ replicate (length (snd longest) - length (snd (sb ! i))) 0"
      using c(6) i sbe by blast
  qed
  have p9: "\<forall>i<length sb.
            take (length (snd (sb ! i))) (labels out ! i) = snd (sb ! i) \<and>
            (\<forall>r<shape0 (inputs out ! i). \<forall>c<shape1 (fst (sb ! i)).
               rows (inputs out ! i) ! r ! c
                 = rows (fst (sb ! i)) ! bcast (shape0 (fst (sb ! i))) r ! c)"
  proof (intro allI impI conjI)
    fix i assume i: "i < length sb"
    show "take (length (snd (sb ! i))) (labels out ! i) = snd (sb ! i)"
      unfolding lab [OF i] by simp
  next
    fix i r c
    assume i: "i < length sb" and rr: "r < shape0 (inputs out ! i)"
      and cc: "c < shape1 (fst (sb ! i))"
    have r': "r < shape0 (fst first)" using rr unfolding inp [OF i] by simp
    show "rows (inputs out ! i) ! r ! c
                 = rows (fst (sb ! i)) ! bcast (shape0 (fst (sb ! i))) r ! c"
      unfolding inp [OF i] using r' cc by (simp add: nth_append)
  qed
  have p10: "sb \<noteq> []" using sbe by simp
  have p11: "shape1 (fst (hd sb)) = Max ((\<lambda>s. shape1 (fst s)) ` set batch0)"
    unfolding hd by (rule tmax)
  have p12: "\<forall>i<length sb.
            fits (shape0 (fst (sb ! i))) (shape0 (fst (hd sb))) \<and>
            inputs out ! i =
              \<lparr>shape0 = shape0 (fst (hd sb)), shape1 = shape1 (fst (hd sb)),
               rows = map (\<lambda>r. map (\<lambda>c. rows (fst (sb ! i)) ! bcast (shape0 (fst (sb ! i))) r ! c)
                                    [0..<shape1 (fst (sb ! i))]
                                @ replicate (shape1 (fst (hd sb)) - shape1 (fst (sb ! i))) 0)
                          [0..<shape0 (fst (hd sb))]\<rparr> \<and>
            labels out ! i =
              snd (sb ! i) @ replicate (Max ((\<lambda>s. length (snd s)) ` set batch0)
                                          - length (snd (sb ! i))) 0"
    unfolding hd lmax [symmetric] using inp fit lab by blast
  show ?thesis using p1 p2 p3 p4 p5 p6 p7 p8 p9 p10 p11 p12 by (intro conjI)
qed

theorem collate_fn_sorted_order_witness:
  "collate_fn [ex_short, ex_long] = Inr ex_out \<and>
   [ex_long, ex_short] = sorted_reverse (\<lambda>s. shape1 (fst s)) [ex_short, ex_long] \<and>
   mset [ex_long, ex_short] = mset [ex_short, ex_long] \<and>
   input_lens ex_out = map (\<lambda>s. shape1 (fst s)) [ex_long, ex_short] \<and>
   label_lens ex_out = map (\<lambda>s. length (snd s)) [ex_long, ex_short] \<and>
   take (length (snd ex_short)) (labels ex_out ! 1) = snd ex_short \<and>
   rows (inputs ex_out ! 1) ! 1 ! 0 = rows (fst ex_short) ! 1 ! 0 \<and>
   inputs ex_out ! 1 =
     \<lparr>shape0 = shape0 (fst ex_long), shape1 = shape1 (fst ex_long),
      rows = map (\<lambda>r. map (\<lambda>c. rows (fst ex_short) ! bcast (shape0 (fst ex_short)) r ! c)
                           [0..<shape1 (fst ex_short)]
                       @ replicate (shape1 (fst ex_long) - shape1 (fst ex_short)) 0)
                 [0..<shape0 (fst ex_long)]\<rparr> \<and>
   inputs ex_out ! 1 = \<lparr>shape0 = 2, shape1 = 3, rows = [[5, 0, 0], [6, 0, 0]]\<rparr> \<and>
   labels ex_out ! 1 = snd ex_short @ replicate (2 - length (snd ex_short)) 0 \<and>
   collate_fn [ex_long, ex_short] = Inr ex_out \<and>
   sorted_wrt (\<lambda>a b. shape1 (fst b) \<le> shape1 (fst a)) [ex_long, ex_short] \<and>
   sorted_reverse (\<lambda>s. shape1 (fst s)) [ex_long, ex_short] = [ex_long, ex_short]"
proof -
  have h1: "collate_fn [ex_short, ex_long] = Inr ex_out"
    by code_simp
  have s1: "[ex_long, ex_short] = sorted_reverse (\<lambda>s. shape1 (fst s)) [ex_short, ex_long]"
    by code_simp
  have h2: "collate_fn [ex_long, ex_short] = Inr ex_out"
    by code_simp
  have w: "sorted_wrt (\<lambda>a b. shape1 (fst b) \<le> shape1 (fst a)) [ex_long, ex_short]"
    by code_simp
  note t1 = collate_fn_sorted_order [OF h1 s1]
  note t2 = collate_fn_sorted_order [OF h2 refl]
  have e: "sorted_reverse (\<lambda>s. shape1 (fst s)) [ex_long, ex_short] = [ex_long, ex_short]"
    using t2 w by blast
  have q: "\<forall>i<length [ex_long, ex_short].
            take (length (snd ([ex_long, ex_short] ! i))) (labels ex_out ! i)
              = snd ([ex_long, ex_short] ! i) \<and>
            (\<forall>r<shape0 (inputs ex_out ! i). \<forall>c<shape1 (fst ([ex_long, ex_short] ! i)).
               rows (inputs ex_out ! i) ! r ! c
                 = rows (fst ([ex_long, ex_short] ! i))
                     ! bcast (shape0 (fst ([ex_long, ex_short] ! i))) r ! c)"
    using t1 by blast
  have q1: "take (length (snd ex_short)) (labels ex_out ! 1) = snd ex_short"
    using q [rule_format, of 1] by simp
  have "1 < shape0 (inputs ex_out ! 1)" "0 < shape1 (fst ([ex_long, ex_short] ! 1))"
    by (simp_all add: ex_out_def ex_short_def)
  then have "rows (inputs ex_out ! 1) ! 1 ! 0
                 = rows (fst ([ex_long, ex_short] ! 1))
                     ! bcast (shape0 (fst ([ex_long, ex_short] ! 1))) 1 ! 0"
    using q [rule_format, of 1] by simp
  then have q2: "rows (inputs ex_out ! 1) ! 1 ! 0 = rows (fst ex_short) ! 1 ! 0"
    by (simp add: bcast_def ex_short_def)
  have p: "\<forall>i<length [ex_long, ex_short].
            fits (shape0 (fst ([ex_long, ex_short] ! i))) (shape0 (fst (hd [ex_long, ex_short]))) \<and>
            inputs ex_out ! i =
              \<lparr>shape0 = shape0 (fst (hd [ex_long, ex_short])),
               shape1 = shape1 (fst (hd [ex_long, ex_short])),
               rows = map (\<lambda>r. map (\<lambda>c. rows (fst ([ex_long, ex_short] ! i))
                                            ! bcast (shape0 (fst ([ex_long, ex_short] ! i))) r ! c)
                                    [0..<shape1 (fst ([ex_long, ex_short] ! i))]
                                @ replicate (shape1 (fst (hd [ex_long, ex_short]))
                                             - shape1 (fst ([ex_long, ex_short] ! i))) 0)
                          [0..<shape0 (fst (hd [ex_long, ex_short]))]\<rparr> \<and>
            labels ex_out ! i =
              snd ([ex_long, ex_short] ! i)
                @ replicate (Max ((\<lambda>s. length (snd s)) ` set [ex_short, ex_long])
                             - length (snd ([ex_long, ex_short] ! i))) 0"
    using t1 by blast
  have mx: "Max ((\<lambda>s. length (snd s)) ` set [ex_short, ex_long]) = 2"
    by (simp add: ex_short_def ex_long_def)
  have q3: "inputs ex_out ! 1 =
     \<lparr>shape0 = shape0 (fst ex_long), shape1 = shape1 (fst ex_long),
      rows = map (\<lambda>r. map (\<lambda>c. rows (fst ex_short) ! bcast (shape0 (fst ex_short)) r ! c)
                           [0..<shape1 (fst ex_short)]
                       @ replicate (shape1 (fst ex_long) - shape1 (fst ex_short)) 0)
                 [0..<shape0 (fst ex_long)]\<rparr>"
    using p [rule_format, of 1] by simp
  have q4: "labels ex_out ! 1 = snd ex_short @ replicate (2 - length (snd ex_short)) 0"
    using p [rule_format, of 1] mx by simp
  have q5: "inputs ex_out ! 1 = \<lparr>shape0 = 2, shape1 = 3, rows = [[5, 0, 0], [6, 0, 0]]\<rparr>"
    by code_simp
  show ?thesis using h1 s1 h2 w e t1 q1 q2 q3 q4 q5 by blast
qed

text \<open>
  C1, as stated, fails: the short sample comes first in the input and second in the batch.
\<close>

theorem collate_fn_reorders_counterexample:
  "collate_fn [ex_short, ex_long] = Inr ex_out \<and>
   input_lens ex_out = [3, 1] \<and>
   map (\<lambda>s. shape1 (fst s)) [ex_short, ex_long] = [1, 3] \<and>
   inputs ex_out ! 0 = fst ex_long \<and> labels ex_out ! 0 = snd ex_long"
  by code_simp


text \<open>
  C4. In every batch that \<^verbatim>\<open>collate_fn\<close> returns there is one row and one length per input
  sample, and the padded region is zero: every feature row of sample \<open>i\<close> is zero from
  column \<open>input_lens[i]\<close> on, and the label row from \<open>label_lens[i]\<close> on.
\<close>

theorem collate_fn_padding_zero:
  fixes batch0 :: "('a::zero) sample list"
  assumes r: "collate_fn batch0 = Inr out"
  shows "length (inputs out) = length batch0 \<and> length (labels out) = length batch0 \<and>
         length (input_lens out) = length batch0 \<and> length (label_lens out) = length batch0 \<and>
         (\<forall>i<length batch0.
            (\<forall>row\<in>set (rows (inputs out ! i)).
               drop (input_lens out ! i) row
                 = replicate (shape1 (inputs out ! i) - input_lens out ! i) 0) \<and>
            drop (label_lens out ! i) (labels out ! i)
              = replicate (length (labels out ! i) - label_lens out ! i) 0)"
proof -
  have "batch0 \<noteq> []" using r by (rule collate_fn_Inr_nonempty)
  then obtain first rest where s: "sorted_reverse (\<lambda>s. shape1 (fst s)) batch0 = first # rest"
    using sorted_reverse_Cons_ex by blast
  obtain longest others where
    l: "sorted_reverse (\<lambda>s. length (snd s)) (first # rest) = longest # others"
    using sorted_reverse_Cons_ex [of "first # rest"] by blast
  note c = collate_fn_Inr [OF s l r]
  have len: "length (first # rest) = length batch0"
    using s sorted_reverse_length [of "\<lambda>s. shape1 (fst s)" batch0] by simp
  have l3: "length (input_lens out) = length batch0"
    unfolding c(3) using len by simp
  have l4: "length (label_lens out) = length batch0"
    unfolding c(4) using len by simp
  have pad: "\<forall>i<length batch0.
            (\<forall>row\<in>set (rows (inputs out ! i)).
               drop (input_lens out ! i) row
                 = replicate (shape1 (inputs out ! i) - input_lens out ! i) 0) \<and>
            drop (label_lens out ! i) (labels out ! i)
              = replicate (length (labels out ! i) - label_lens out ! i) 0"
  proof (intro allI impI)
    fix i assume i: "i < length batch0"
    let ?s = "(first # rest) ! i"
    have i': "i < length (first # rest)" using i len by simp
    have il: "input_lens out ! i = shape1 (fst ?s)"
      unfolding c(3) using i' by (rule nth_map)
    have ll: "label_lens out ! i = length (snd ?s)"
      unfolding c(4) using i' by (rule nth_map)
    have inp: "inputs out ! i =
             \<lparr>shape0 = shape0 (fst first), shape1 = shape1 (fst first),
              rows = map (\<lambda>r. map (\<lambda>c. rows (fst ?s) ! bcast (shape0 (fst ?s)) r ! c)
                                   [0..<shape1 (fst ?s)]
                               @ replicate (shape1 (fst first) - shape1 (fst ?s)) 0)
                         [0..<shape0 (fst first)]\<rparr>"
      using c(5) i by blast
    have lab: "labels out ! i = snd ?s @ replicate (length (snd longest) - length (snd ?s)) 0"
      using c(6) i by blast
    have a: "\<forall>row\<in>set (rows (inputs out ! i)).
               drop (input_lens out ! i) row
                 = replicate (shape1 (inputs out ! i) - input_lens out ! i) 0"
      unfolding il inp by auto
    have b: "drop (label_lens out ! i) (labels out ! i)
              = replicate (length (labels out ! i) - label_lens out ! i) 0"
      unfolding ll lab by simp
    show "(\<forall>row\<in>set (rows (inputs out ! i)).
               drop (input_lens out ! i) row
                 = replicate (shape1 (inputs out ! i) - input_lens out ! i) 0) \<and>
            drop (label_lens out ! i) (labels out ! i)
              = replicate (length (labels out ! i) - label_lens out ! i) 0"
      using a b by (rule conjI)
  qed
  show ?thesis using c(1) c(2) l3 l4 pad by (intro conjI)
qed

theorem collate_fn_padding_zero_witness:
  "collate_fn [ex_short, ex_long] = Inr ex_out \<and>
   length (inputs ex_out) = length [ex_short, ex_long] \<and>
   drop (input_lens ex_out ! 1) (rows (inputs ex_out ! 1) ! 0)
     = replicate (shape1 (inputs ex_out ! 1) - input_lens ex_out ! 1) 0 \<and>
   drop (label_lens ex_out ! 1) (labels ex_out ! 1)
     = replicate (length (labels ex_out ! 1) - label_lens ex_out ! 1) 0 \<and>
   shape1 (inputs ex_out ! 1) - input_lens ex_out ! 1 = 2 \<and>
   length (labels ex_out ! 1) - label_lens ex_out ! 1 = 1"
proof -
  have h: "collate_fn [ex_short, ex_long] = Inr ex_out"
    by code_simp
  note t = collate_fn_padding_zero [OF h]
  have q: "\<forall>i<length [ex_short, ex_long].
            (\<forall>row\<in>set (rows (inputs ex_out ! i)).
               drop (input_lens ex_out ! i) row
                 = replicate (shape1 (inputs ex_out ! i) - input_lens ex_out ! i) 0) \<and>
            drop (label_lens ex_out ! i) (labels ex_out ! i)
              = replicate (length (labels ex_out ! i) - label_lens ex_out ! i) 0"
    using t by blast
  have m: "rows (inputs ex_out ! 1) ! 0 \<in> set (rows (inputs ex_out ! 1))"
    by (simp add: ex_out_def)
  have a: "drop (input_lens ex_out ! 1) (rows (inputs ex_out ! 1) ! 0)
     = replicate (shape1 (inputs ex_out ! 1) - input_lens ex_out ! 1) 0"
    using q [rule_format, of 1] m by simp
  have b: "drop (label_lens ex_out ! 1) (labels ex_out ! 1)
     = replicate (length (labels ex_out ! 1) - label_lens ex_out ! 1) 0"
    using q [rule_format, of 1] by simp
  have n: "shape1 (inputs ex_out ! 1) - input_lens ex_out ! 1 = 2"
          "length (labels ex_out ! 1) - label_lens ex_out ! 1 = 1"
    by (simp_all add: ex_out_def)
  show ?thesis using h t a b n by blast
qed

text \<open>
  C7, as the code has it. With \<open>first\<close> the longest sample (the head of the sorted batch),
  \<^verbatim>\<open>collate_fn\<close> raises numpy's \<open>ValueError\<close> exactly when some sample has a number of
  feature rows that is neither that of \<open>first\<close> nor 1; otherwise it returns a batch, and
  so it does whenever all samples have the same number of feature rows.
\<close>

theorem collate_fn_ValueError_iff:
  fixes batch0 :: "('a::zero) sample list"
  assumes s: "sorted_reverse (\<lambda>s. shape1 (fst s)) batch0 = first # rest"
  shows "(collate_fn batch0 = Inl ValueError)
           = (\<exists>x\<in>set batch0. shape0 (fst x) \<noteq> shape0 (fst first) \<and> shape0 (fst x) \<noteq> 1) \<and>
         (collate_fn batch0 \<noteq> Inl ValueError \<longrightarrow> (\<exists>out. collate_fn batch0 = Inr out)) \<and>
         ((\<forall>x\<in>set batch0. shape0 (fst x) = F) \<longrightarrow> (\<exists>out. collate_fn batch0 = Inr out))"
proof -
  have a: "(collate_fn batch0 = Inl ValueError)
           = (\<exists>x\<in>set batch0. shape0 (fst x) \<noteq> shape0 (fst first) \<and> shape0 (fst x) \<noteq> 1)"
  proof
    assume "collate_fn batch0 = Inl ValueError"
    from collate_fn_Inl [OF s this]
    show "\<exists>x\<in>set batch0. shape0 (fst x) \<noteq> shape0 (fst first) \<and> shape0 (fst x) \<noteq> 1"
      by (simp add: fits_def)
  next
    assume "\<exists>x\<in>set batch0. shape0 (fst x) \<noteq> shape0 (fst first) \<and> shape0 (fst x) \<noteq> 1"
    then obtain x where x: "x \<in> set batch0" "\<not> fits (shape0 (fst x)) (shape0 (fst first))"
      by (auto simp add: fits_def)
    show "collate_fn batch0 = Inl ValueError"
    proof (cases "collate_fn batch0")
      case (Inl e)
      then show ?thesis using collate_fn_Inl [OF s Inl] by simp
    next
      case (Inr out)
      then show ?thesis using collate_fn_fits [OF s Inr x(1)] x(2) by simp
    qed
  qed
  have b: "collate_fn batch0 \<noteq> Inl ValueError \<longrightarrow> (\<exists>out. collate_fn batch0 = Inr out)"
  proof (cases "collate_fn batch0")
    case (Inl e)
    then show ?thesis using collate_fn_Inl [OF s Inl] by simp
  next
    case (Inr out)
    then show ?thesis by simp
  qed
  have c: "(\<forall>x\<in>set batch0. shape0 (fst x) = F) \<longrightarrow> (\<exists>out. collate_fn batch0 = Inr out)"
  proof
    assume all: "\<forall>x\<in>set batch0. shape0 (fst x) = F"
    have "first \<in> set (first # rest)" by simp
    then have "first \<in> set batch0"
      using sorted_reverse_set [of "\<lambda>s. shape1 (fst s)" batch0] by (simp only: s)
    then have "shape0 (fst first) = F" using all by blast
    then have "\<not> (\<exists>x\<in>set batch0. shape0 (fst x) \<noteq> shape0 (fst first) \<and> shape0 (fst x) \<noteq> 1)"
      using all by simp
    then have "collate_fn batch0 \<noteq> Inl ValueError" using a by simp
    then show "\<exists>out. collate_fn batch0 = Inr out" using b by simp
  qed
  show ?thesis using a b c by (intro conjI)
qed

theorem collate_fn_ValueError_iff_witness:
  "sorted_reverse (\<lambda>s. shape1 (fst s)) [ex_short, ex_long] = ex_long # [ex_short] \<and>
   shape0 (fst ex_short) = 2 \<and> shape0 (fst ex_long) = 2 \<and>
   collate_fn [ex_short, ex_long] \<noteq> Inl ValueError \<and>
   (\<exists>out. collate_fn [ex_short, ex_long] = Inr out) \<and>
   sorted_reverse (\<lambda>s. shape1 (fst s)) [ex_wide, ex_long] = ex_long # [ex_wide] \<and>
   shape0 (fst ex_wide) \<noteq> shape0 (fst ex_long) \<and> shape0 (fst ex_wide) \<noteq> 1 \<and>
   collate_fn [ex_wide, ex_long] = Inl ValueError"
proof -
  have s1: "sorted_reverse (\<lambda>s. shape1 (fst s)) [ex_short, ex_long] = ex_long # [ex_short]"
    by code_simp
  have a0: "shape0 (fst ex_short) = 2 \<and> shape0 (fst ex_long) = 2"
    by (simp add: ex_short_def ex_long_def)
  then have a1: "\<forall>x\<in>set [ex_short, ex_long]. shape0 (fst x) = 2"
    by simp
  have s2: "sorted_reverse (\<lambda>s. shape1 (fst s)) [ex_wide, ex_long] = ex_long # [ex_wide]"
    by code_simp
  have d: "shape0 (fst ex_wide) \<noteq> shape0 (fst ex_long) \<and> shape0 (fst ex_wide) \<noteq> 1"
    by (simp add: ex_wide_def ex_long_def)
  note t1 = collate_fn_ValueError_iff [OF s1, of 2]
  note t2 = collate_fn_ValueError_iff [OF s2, of 2]
  have r1: "\<exists>out. collate_fn [ex_short, ex_long] = Inr out"
    using t1 a1 by blast
  then have n1: "collate_fn [ex_short, ex_long] \<noteq> Inl ValueError"
    by auto
  have "\<exists>x\<in>set [ex_wide, ex_long]. shape0 (fst x) \<noteq> shape0 (fst ex_long) \<and> shape0 (fst x) \<noteq> 1"
    using d by simp
  then have r2: "collate_fn [ex_wide, ex_long] = Inl ValueError"
    using t2 by blast
  show ?thesis using s1 a0 n1 r1 s2 d r2 by blast
qed

text \<open>
  C7, as stated, fails: the two samples have 2 and 1 feature rows and \<^verbatim>\<open>collate_fn\<close>
  returns a batch, the single row copied onto both rows.
\<close>

theorem collate_fn_broadcast_counterexample:
  "shape0 (fst ex_long) = 2 \<and> shape0 (fst ex_flat) = 1 \<and>
   collate_fn [ex_long, ex_flat] =
     Inr \<lparr>inputs = [\<lparr>shape0 = 2, shape1 = 3, rows = [[1, 2, 3], [4, 5, 6]]\<rparr>,
                    \<lparr>shape0 = 2, shape1 = 3, rows = [[7, 8, 0], [7, 8, 0]]\<rparr>],
          labels = [[8, 9], [0, 0]], input_lens = [3, 2], label_lens = [2, 0]\<rparr>"
  by code_simp

text \<open>
  C10. \<^verbatim>\<open>collate_fn\<close> reaches an index out of range exactly on the empty list, where
  \<^verbatim>\<open>batch[0]\<close> raises; on a non-empty list \<^verbatim>\<open>batch[0]\<close>, \<^verbatim>\<open>batch_temp[0]\<close>,
  \<^verbatim>\<open>batch[x]\<close> and the row writes at \<open>x\<close> are all in bounds.
\<close>

theorem collate_fn_IndexError_iff_empty:
  fixes batch0 :: "('a::zero) sample list"
  shows "(collate_fn batch0 = Inl IndexError) = (batch0 = [])"
proof (cases "batch0 = []")
  case True
  then show ?thesis by (simp add: collate_fn_Nil)
next
  case False
  then obtain first rest where s: "sorted_reverse (\<lambda>s. shape1 (fst s)) batch0 = first # rest"
    using sorted_reverse_Cons_ex by blast
  have "collate_fn batch0 \<noteq> Inl IndexError"
  proof
    assume "collate_fn batch0 = Inl IndexError"
    from collate_fn_Inl [OF s this] show False by simp
  qed
  with False show ?thesis by simp
qed

theorem collate_fn_IndexError_iff_empty_witness:
  "collate_fn ([] :: int sample list) = Inl IndexError \<and>
   collate_fn [ex_short, ex_long] \<noteq> Inl IndexError"
  using collate_fn_IndexError_iff_empty [of "[] :: int sample list"]
        collate_fn_IndexError_iff_empty [of "[ex_short, ex_long]"]
  by simp

end
